theory Spec2Isabelle
  imports Main
begin

section \<open>Data model\<close>

text \<open>
  Object ids travel through requests as strings and are compared through
  \<open>toString()\<close> / \<open>equals\<close>; the model keeps them as strings.
\<close>

type_synonym oid = string

text \<open>CompanyModel.js: the fields the guard reads (\<open>isActive\<close>, \<open>subscription.status\<close>).\<close>

record company =
  c_id :: oid
  c_isActive :: bool
  subscription_status :: string

text \<open>DepartmentModel.js: company reference, manager references, \<open>isActive\<close>.\<close>

record department =
  d_id :: oid
  d_company :: oid
  managers :: "oid list"
  d_isActive :: bool

text \<open>UserModel.js: role is one of the strings SuperAdmin, Manager, User.\<close>

record user =
  u_id :: oid
  role :: string
  u_company :: oid
  u_department :: oid
  isActive :: bool
  isVerified :: bool

text \<open>
  \<open>req.user\<close>: the user document with \<open>company\<close> and \<open>department\<close> populated.
  A reference that resolves to no document populates as \<open>null\<close> (\<open>None\<close>).
\<close>

record principal =
  p_user :: user
  p_company :: "company option"
  p_department :: "department option"

text \<open>ProjectTaskModel.js: \<open>clientInfo\<close>.\<close>

record client_info =
  ci_name :: string
  ci_phone :: string
  ci_address :: "string option"

text \<open>
  Modelled from the spec: the Task and AssignedTask schemas (TaskModel.js and
  AssignedTaskModel.js are not under src). A task has the common fields; \<open>taskType\<close>
  is the discriminator; "exactly one variant's extra fields are populated":
  \<open>assignedTo\<close> on an AssignedTask, \<open>clientInfo\<close> on a ProjectTask, the other one being
  \<open>undefined\<close> (\<open>None\<close>). The controller agrees: createTask builds a ProjectTask without
  \<open>assignedTo\<close>, and updateTaskById reads \<open>task.assignedTo?.map(...) || []\<close>.
\<close>

record task =
  t_id :: oid
  taskType :: string
  title :: string
  description :: string
  location :: string
  dueDate :: int
  priority :: string
  status :: string
  createdBy :: oid
  t_company :: oid
  t_department :: oid
  assignedTo :: "oid list option"
  clientInfo :: "client_info option"

text \<open>A notification record as the controllers build it.\<close>

record notification =
  n_user :: oid
  n_message :: string
  n_type :: string
  n_task :: "oid option"
  n_company :: oid
  n_department :: oid
  linkedDocument :: oid
  linkedDocumentType :: string

text \<open>TaskActivityModel.js: task, performer, description, statusChange \<open>{from, to}\<close>.\<close>

record task_activity =
  a_task :: oid
  performedBy :: oid
  a_description :: string
  statusChange_from :: "string option"
  statusChange_to :: string

text \<open>The document store: one list per collection.\<close>

record store =
  users :: "user list"
  companies :: "company list"
  departments :: "department list"
  tasks :: "task list"
  notifications :: "notification list"
  activities :: "task_activity list"

text \<open>
  A failed request: \<open>Failure status code\<close> is a JSON error response or a
  \<open>CustomError(message, status, code)\<close> handed to \<open>next\<close> (the code is absent when the
  source gives none); \<open>Thrown name\<close> is a JavaScript exception raised by the runtime.
\<close>

datatype failure = Failure nat "string option" | Thrown string

text \<open>
  A value in a JSON request body: a string, an array of strings, or an object with the
  shape of \<open>clientInfo\<close>.
\<close>

datatype jsvalue = JString string | JArray "string list" | JObject client_info

text \<open>
  What the source calls but does not define: the object-id format test
  (\<open>mongoose.Types.ObjectId.isValid\<close>), token verification (\<open>jwt.verify\<close>: the name of
  the error, or the decoded \<open>userId\<close>), date construction (\<open>new Date(v)\<close>, \<open>None\<close> for an
  invalid date), the clock, validation by the base Task schema (TaskModel.js), and the
  generator of fresh document ids.
\<close>

record env =
  isValidObjectId :: "string \<Rightarrow> bool"
  jwt_verify :: "string \<Rightarrow> string + string"
  parseDate :: "jsvalue \<Rightarrow> int option"
  now :: int
  taskSchemaValid :: "task \<Rightarrow> bool"
  newObjectId :: "store \<Rightarrow> oid"

section \<open>Identity and session guard (authMiddleware.js)\<close>

definition findUserById :: "store \<Rightarrow> oid \<Rightarrow> user option" where
  "findUserById db i = find (\<lambda>u. u_id u = i) (users db)"

definition populate :: "store \<Rightarrow> user \<Rightarrow> principal" where
  "populate db u =
     \<lparr> p_user = u,
       p_company = find (\<lambda>c. c_id c = u_company u) (companies db),
       p_department = find (\<lambda>d. d_id d = u_department u) (departments db) \<rparr>"

text \<open>
  verifyJWT. The outer \<open>try/catch\<close> turns every exception (a cast error on the decoded
  id, a property read on a \<open>null\<close> company or department) into 500 AUTHENTICATION_ERROR.
  The company branch is \<open>return res.status(401).json({})\<close>: an empty body, with the
  \<open>clearCookie\<close> call that names COMPANY_DEACTIVATED unreachable after the return.
\<close>

definition verifyJWT :: "env \<Rightarrow> store \<Rightarrow> string option \<Rightarrow> failure + principal" where
  "verifyJWT ev db token =
     (case token of
        None \<Rightarrow> Inl (Failure 401 (Some ''UNAUTHORIZED''))
      | Some tok \<Rightarrow>
          if tok = [] then Inl (Failure 401 (Some ''UNAUTHORIZED''))
          else
            (case jwt_verify ev tok of
               Inl name \<Rightarrow>
                 if name = ''TokenExpiredError'' then Inl (Failure 401 (Some ''TOKEN_EXPIRED''))
                 else if name = ''JsonWebTokenError'' then Inl (Failure 401 (Some ''INVALID_TOKEN''))
                 else Inl (Failure 401 (Some ''TOKEN_VERIFICATION_FAILED''))
             | Inr userId \<Rightarrow>
                 if \<not> isValidObjectId ev userId then Inl (Failure 500 (Some ''AUTHENTICATION_ERROR''))
                 else
                   (case findUserById db userId of
                      None \<Rightarrow> Inl (Failure 401 (Some ''USER_NOT_FOUND''))
                    | Some u \<Rightarrow>
                        let p = populate db u in
                        if \<not> isVerified u then Inl (Failure 401 (Some ''ACCOUNT_NOT_VERIFIED''))
                        else if \<not> isActive u then Inl (Failure 401 (Some ''USER_DEACTIVATED''))
                        else
                          (case p_company p of
                             None \<Rightarrow> Inl (Failure 500 (Some ''AUTHENTICATION_ERROR''))
                           | Some c \<Rightarrow>
                               if \<not> c_isActive c then Inl (Failure 401 None)
                               else if subscription_status c \<noteq> ''active''
                               then Inl (Failure 403 (Some ''SUBSCRIPTION_INACTIVE''))
                               else
                                 (case p_department p of
                                    None \<Rightarrow> Inl (Failure 500 (Some ''AUTHENTICATION_ERROR''))
                                  | Some d \<Rightarrow>
                                      if \<not> d_isActive d
                                      then Inl (Failure 401 (Some ''DEPARTMENT_DEACTIVATED''))
                                      else Inr p)))))"

section \<open>JavaScript helpers\<close>

text \<open>
  \<open>String.prototype.trim\<close> on strings of ASCII characters: it strips the six ASCII
  white space characters. The Unicode white space that \<open>trim\<close> strips as well (U+00A0,
  U+FEFF, U+2028, U+2029, the space separators) is not modelled; the strings of the model
  are lists of 8-bit characters.
\<close>

definition isSpace :: "char \<Rightarrow> bool" where
  "isSpace c = (c \<in> set [CHR '' '', CHR 0x09, CHR 0x0A, CHR 0x0B, CHR 0x0C, CHR 0x0D])"

definition trim :: "string \<Rightarrow> string" where
  "trim s = rev (dropWhile isSpace (rev (dropWhile isSpace s)))"

text \<open>Truthiness of an optional string: \<open>undefined\<close> and the empty string are falsy.\<close>

definition truthy :: "string option \<Rightarrow> bool" where
  "truthy v = (case v of None \<Rightarrow> False | Some s \<Rightarrow> s \<noteq> [])"

text \<open>\<open>v || d\<close> on an optional string.\<close>

definition orDefault :: "string option \<Rightarrow> string \<Rightarrow> string" where
  "orDefault v d = (case v of None \<Rightarrow> d | Some s \<Rightarrow> if s = [] then d else s)"

text \<open>The string held by a field (read only after the field was checked to be there).\<close>

definition str :: "string option \<Rightarrow> string" where
  "str v = (case v of None \<Rightarrow> [] | Some s \<Rightarrow> s)"

section \<open>Task creation (TaskController.js, createTask)\<close>

record client_body =
  cb_name :: "string option"
  cb_phone :: "string option"
  cb_address :: "string option"

text \<open>\<open>req.body\<close> of POST /tasks, field by field as createTask destructures it.\<close>

record create_body =
  b_taskType :: "string option"
  b_assignedTo :: "string list option"
  b_clientInfo :: "client_body option"
  b_title :: "string option"
  b_description :: "string option"
  b_dueDate :: "string option"
  b_location :: "string option"
  b_priority :: "string option"
  b_status :: "string option"

text \<open>\<open>!value || (typeof value === "string" && !value.trim())\<close>.\<close>

definition missingField :: "string option \<Rightarrow> bool" where
  "missingField v = (case v of None \<Rightarrow> True | Some s \<Rightarrow> s = [] \<or> trim s = [])"

definition requiredFields :: "create_body \<Rightarrow> (string \<times> string option) list" where
  "requiredFields body =
     [(''Task title'', b_title body),
      (''Task description'', b_description body),
      (''Due date'', b_dueDate body),
      (''Task type'', b_taskType body),
      (''Location'', b_location body)]"

definition missingFields :: "create_body \<Rightarrow> string list" where
  "missingFields body = map fst (filter (\<lambda>kv. missingField (snd kv)) (requiredFields body))"

text \<open>Phase 1, input validation; on success the parsed due date.\<close>

definition inputValidation :: "env \<Rightarrow> create_body \<Rightarrow> failure + int" where
  "inputValidation ev body =
     (if missingFields body \<noteq> [] then Inl (Failure 400 (Some ''MISSING_REQUIRED_FIELDS''))
      else if str (b_taskType body) \<notin> set [''AssignedTask'', ''ProjectTask'']
      then Inl (Failure 400 (Some ''INVALID_TASK_TYPE''))
      else
        (case parseDate ev (JString (str (b_dueDate body))) of
           None \<Rightarrow> Inl (Failure 400 (Some ''INVALID_DUE_DATE''))
         | Some due \<Rightarrow>
             if due < now ev then Inl (Failure 400 (Some ''PAST_DUE_DATE''))
             else Inr due))"

text \<open>
  \<open>User.find({_id: {$in: assignedTo}, company, department, isActive: true})\<close>, with the
  creator's company and department.
\<close>

definition findAssignedUsers :: "store \<Rightarrow> user \<Rightarrow> oid list \<Rightarrow> user list" where
  "findAssignedUsers db usr ids =
     filter (\<lambda>u. u_id u \<in> set ids \<and> u_company u = u_company usr \<and>
                 u_department u = u_department usr \<and> isActive u) (users db)"

text \<open>
  \<open>User.find({company, department, role: {$in: ["Manager", "SuperAdmin"]}, isActive: true})\<close>.
\<close>

definition findManagersAndAdmins :: "store \<Rightarrow> user \<Rightarrow> user list" where
  "findManagersAndAdmins db usr =
     filter (\<lambda>u. u_company u = u_company usr \<and> u_department u = u_department usr \<and>
                 role u \<in> set [''Manager'', ''SuperAdmin''] \<and> isActive u) (users db)"

text \<open>
  Phase 2, task type specific validation; on success the notification receivers
  (the ids found, without the creator's).
\<close>

definition typeSpecificValidation :: "env \<Rightarrow> store \<Rightarrow> user \<Rightarrow> create_body \<Rightarrow> failure + oid list" where
  "typeSpecificValidation ev db usr body =
     (if str (b_taskType body) = ''AssignedTask'' then
        (case b_assignedTo body of
           None \<Rightarrow> Inl (Failure 400 (Some ''MISSING_ASSIGNED_USERS''))
         | Some ids \<Rightarrow>
             if ids = [] then Inl (Failure 400 (Some ''MISSING_ASSIGNED_USERS''))
             else if filter (\<lambda>i. \<not> isValidObjectId ev i) ids \<noteq> []
             then Inl (Failure 400 (Some ''INVALID_USER_ID''))
             else
               let assignedUsers = findAssignedUsers db usr ids in
               if length assignedUsers \<noteq> length ids
               then Inl (Failure 404 (Some ''INVALID_ASSIGNED_USERS''))
               else Inr (filter (\<lambda>i. i \<noteq> u_id usr) (map u_id assignedUsers)))
      else if str (b_taskType body) = ''ProjectTask'' then
        (case b_clientInfo body of
           None \<Rightarrow> Inl (Failure 400 (Some ''MISSING_CLIENT_INFO''))
         | Some ci \<Rightarrow>
             if truthy (cb_name ci) \<and> truthy (cb_phone ci)
             then Inr (filter (\<lambda>i. i \<noteq> u_id usr) (map u_id (findManagersAndAdmins db usr)))
             else Inl (Failure 400 (Some ''MISSING_CLIENT_DETAILS'')))
      else Inr [])"

text \<open>ProjectTaskModel.js: the phone validator \<open>/^(09\d{8}|\+2519\d{8})$/\<close>.\<close>

definition isDigit :: "char \<Rightarrow> bool" where
  "isDigit c = (c \<in> set ''0123456789'')"

definition validPhone :: "string \<Rightarrow> bool" where
  "validPhone v =
     ((length v = 10 \<and> take 2 v = ''09'' \<and> list_all isDigit (drop 2 v)) \<or>
      (length v = 13 \<and> take 5 v = ''+2519'' \<and> list_all isDigit (drop 5 v)))"

text \<open>ProjectTaskModel.js: the pre-save hook that rewrites a leading 09 to +2519.\<close>

definition formatPhone :: "string \<Rightarrow> string" where
  "formatPhone v = (if take 2 v = ''09'' then ''+2519'' @ drop 2 v else v)"

text \<open>
  \<open>task.save()\<close> of a new document: schema validation first (the Task schema is a
  parameter; for a ProjectTask the client name is required and the phone must match),
  then the pre-save hook. A validation error is thrown.
\<close>

definition saveNewTask :: "env \<Rightarrow> task \<Rightarrow> failure + task" where
  "saveNewTask ev t =
     (if \<not> taskSchemaValid ev t then Inl (Thrown ''ValidationError'')
      else
        (case clientInfo t of
           None \<Rightarrow> Inr t
         | Some ci \<Rightarrow>
             if ci_name ci = [] then Inl (Thrown ''ValidationError'')
             else if \<not> validPhone (ci_phone ci) then Inl (Thrown ''ValidationError'')
             else Inr (t\<lparr>clientInfo := Some (ci\<lparr>ci_phone := formatPhone (ci_phone ci)\<rparr>)\<rparr>)))"

definition creationNotification :: "user \<Rightarrow> string \<Rightarrow> task \<Rightarrow> oid \<Rightarrow> notification" where
  "creationNotification usr ty t userId =
     \<lparr> n_user = userId,
       n_message = ''New '' @ (if ty = ''AssignedTask'' then ''assigned'' else ''project'') @
                   '' task: '' @ title t,
       n_type = ''TaskAssignment'',
       n_task = Some (t_id t),
       n_company = u_company usr,
       n_department = u_department usr,
       linkedDocument = t_id t,
       linkedDocumentType = ''Task'' \<rparr>"

text \<open>
  The document of phase 3: \<open>new AssignedTask({...baseTaskData, assignedTo})\<close> or
  \<open>new ProjectTask({...baseTaskData, clientInfo: {...}})\<close>. Reading \<open>clientInfo.name\<close> of
  an absent \<open>clientInfo\<close> is a TypeError.
\<close>

definition buildTask :: "env \<Rightarrow> store \<Rightarrow> user \<Rightarrow> create_body \<Rightarrow> int \<Rightarrow> failure + task" where
  "buildTask ev db usr body due =
     (let baseTaskData =
            \<lparr> t_id = newObjectId ev db,
              taskType = str (b_taskType body),
              title = trim (str (b_title body)),
              description = trim (str (b_description body)),
              location = trim (str (b_location body)),
              dueDate = due,
              priority = orDefault (b_priority body) ''Medium'',
              status = orDefault (b_status body) ''To Do'',
              createdBy = u_id usr,
              t_company = u_company usr,
              t_department = u_department usr,
              assignedTo = None,
              clientInfo = None \<rparr>
      in if str (b_taskType body) = ''AssignedTask''
         then Inr (baseTaskData\<lparr>assignedTo := b_assignedTo body\<rparr>)
         else
           (case b_clientInfo body of
              None \<Rightarrow> Inl (Thrown ''TypeError'')
            | Some ci \<Rightarrow>
                Inr (baseTaskData\<lparr>clientInfo :=
                  Some \<lparr> ci_name = trim (str (cb_name ci)),
                         ci_phone = trim (str (cb_phone ci)),
                         ci_address = (if truthy (cb_address ci)
                                       then Some (trim (str (cb_address ci)))
                                       else None) \<rparr>\<rparr>)))"

text \<open>
  Phase 3, transactional creation: build the document, save it, insert one notification
  per receiver, commit. A failure aborts the transaction, so the store it leaves is the
  one it found; on success the new task and the new store.
\<close>

definition transactionalCreation ::
  "env \<Rightarrow> store \<Rightarrow> user \<Rightarrow> create_body \<Rightarrow> int \<Rightarrow> oid list \<Rightarrow> failure + (task \<times> store)" where
  "transactionalCreation ev db usr body due notificationReceivers =
     (case buildTask ev db usr body due of
        Inl e \<Rightarrow> Inl e
      | Inr new \<Rightarrow>
          (case saveNewTask ev new of
             Inl e \<Rightarrow> Inl e
           | Inr saved \<Rightarrow>
               Inr (saved,
                    db\<lparr>tasks := tasks db @ [saved],
                       notifications := notifications db @
                         map (creationNotification usr (str (b_taskType body)) saved)
                           notificationReceivers\<rparr>)))"

definition createTask :: "env \<Rightarrow> store \<Rightarrow> user \<Rightarrow> create_body \<Rightarrow> failure + (task \<times> store)" where
  "createTask ev db usr body =
     (case inputValidation ev body of
        Inl e \<Rightarrow> Inl e
      | Inr due \<Rightarrow>
          (case typeSpecificValidation ev db usr body of
             Inl e \<Rightarrow> Inl e
           | Inr notificationReceivers \<Rightarrow>
               transactionalCreation ev db usr body due notificationReceivers))"

text \<open>The store a request leaves behind: unchanged when the request failed.\<close>

definition storeAfter :: "store \<Rightarrow> failure + ('a \<times> store) \<Rightarrow> store" where
  "storeAfter db r = (case r of Inl e \<Rightarrow> db | Inr res \<Rightarrow> snd res)"

section \<open>Reading tasks (TaskController.js, getAllTasks and getTaskById)\<close>

text \<open>\<open>req.query\<close> of GET /tasks (\<open>page\<close> and \<open>limit\<close> only choose the page returned).\<close>

record list_query =
  lq_status :: "string option"
  lq_taskType :: "string option"
  lq_departmentId :: "string option"

text \<open>The filter handed to \<open>Task.paginate\<close>.\<close>

record task_query =
  q_company :: oid
  q_department :: oid
  q_status :: "string option"
  q_taskType :: "string option"
  q_assignedTo :: "oid option"

text \<open>
  The query of getAllTasks before the department filter: company and department of the
  user, the status and task type filters, the restriction of the role User.
\<close>

definition baseTaskQuery :: "user \<Rightarrow> list_query \<Rightarrow> task_query" where
  "baseTaskQuery usr q =
     (let q0 = \<lparr> q_company = u_company usr, q_department = u_department usr,
                 q_status = None, q_taskType = None, q_assignedTo = None \<rparr>;
          q1 = (if truthy (lq_status q) then q0\<lparr>q_status := lq_status q\<rparr> else q0);
          q2 = (if truthy (lq_taskType q) then q1\<lparr>q_taskType := lq_taskType q\<rparr> else q1);
          q3 = (if truthy (lq_taskType q) \<and>
                   str (lq_taskType q) \<in> set [''AssignedTask'', ''ProjectTask'']
                then q2\<lparr>q_taskType := lq_taskType q\<rparr> else q2)
      in if role usr = ''User''
         then q3\<lparr>q_assignedTo := Some (u_id usr), q_taskType := Some ''AssignedTask''\<rparr>
         else q3)"

text \<open>
  The query getAllTasks hands to \<open>Task.paginate\<close>, or the failure it answers with: the
  department filter is applied \<open>if (departmentId)\<close>.
\<close>

definition buildTaskQuery :: "env \<Rightarrow> user \<Rightarrow> list_query \<Rightarrow> failure + task_query" where
  "buildTaskQuery ev usr q =
     (if truthy (lq_departmentId q) then
        (if \<not> isValidObjectId ev (str (lq_departmentId q))
         then Inl (Failure 400 (Some ''INVALID_DEPARTMENT_ID''))
         else if role usr = ''SuperAdmin''
         then Inr ((baseTaskQuery usr q)\<lparr>q_department := str (lq_departmentId q)\<rparr>)
         else Inr (baseTaskQuery usr q))
      else Inr (baseTaskQuery usr q))"

text \<open>A document matches the filter; \<open>assignedTo: {$in: [id]}\<close> asks for an array holding the id.\<close>

definition matches :: "task_query \<Rightarrow> task \<Rightarrow> bool" where
  "matches q t =
     (t_company t = q_company q \<and> t_department t = q_department q \<and>
      (case q_status q of None \<Rightarrow> True | Some s \<Rightarrow> status t = s) \<and>
      (case q_taskType q of None \<Rightarrow> True | Some ty \<Rightarrow> taskType t = ty) \<and>
      (case q_assignedTo q of
         None \<Rightarrow> True
       | Some i \<Rightarrow> (case assignedTo t of None \<Rightarrow> False | Some ids \<Rightarrow> i \<in> set ids)))"

text \<open>getAllTasks: the documents the query selects (the response is one page of them).\<close>

definition getAllTasks :: "env \<Rightarrow> store \<Rightarrow> user \<Rightarrow> list_query \<Rightarrow> failure + task list" where
  "getAllTasks ev db usr q =
     (case buildTaskQuery ev usr q of
        Inl e \<Rightarrow> Inl e
      | Inr tq \<Rightarrow> Inr (filter (matches tq) (tasks db)))"

definition findTaskById :: "store \<Rightarrow> oid \<Rightarrow> task option" where
  "findTaskById db i = find (\<lambda>t. t_id t = i) (tasks db)"

text \<open>
  getTaskById. \<open>task.assignedTo.includes(req.user._id)\<close> is evaluated for a User only
  (\<open>&&\<close>); on a document without \<open>assignedTo\<close> the read of \<open>includes\<close> is a TypeError.
\<close>

definition getTaskById :: "env \<Rightarrow> store \<Rightarrow> user \<Rightarrow> string \<Rightarrow> failure + task" where
  "getTaskById ev db usr taskId =
     (if \<not> isValidObjectId ev taskId then Inl (Failure 400 (Some ''INVALID_TASK_ID''))
      else
        (case findTaskById db taskId of
           None \<Rightarrow> Inl (Failure 404 (Some ''TASK_NOT_FOUND''))
         | Some t \<Rightarrow>
             if role usr = ''User'' then
               (case assignedTo t of
                  None \<Rightarrow> Inl (Thrown ''TypeError'')
                | Some ids \<Rightarrow>
                    if u_id usr \<notin> set ids then Inl (Failure 403 (Some ''FORBIDDEN''))
                    else Inr t)
             else Inr t))"

section \<open>Task update (TaskController.js, updateTaskById)\<close>

definition protectedFields :: "string list" where
  "protectedFields = [''taskType'', ''createdBy'', ''department'', ''status'']"

definition allowedUpdates :: "task \<Rightarrow> string list" where
  "allowedUpdates t =
     [''title'', ''description'', ''location'', ''dueDate'', ''priority''] @
     (if taskType t = ''AssignedTask'' then [''assignedTo''] else []) @
     (if taskType t = ''ProjectTask'' then [''clientInfo''] else [])"

text \<open>
  The document while it is being updated: the task, the variable \<open>hasAssignedToChange\<close>
  (initially false), and whether an assignment could not be cast to the type of its path
  (Mongoose records the cast error and \<open>save\<close> then fails validation).
\<close>

record update_state =
  us_task :: task
  hasAssignedToChange :: bool
  castFailed :: bool

text \<open>
  The value \<open>task[key] = value\<close> gives the document (for dueDate the value is
  \<open>new Date(updateData[key])\<close>), or \<open>None\<close> when the value cannot be cast to the type of
  the path: a value of the wrong type, an invalid date, an id that is no object id. A
  key that is no path of the document is ignored.
\<close>

definition assignField :: "env \<Rightarrow> string \<Rightarrow> jsvalue \<Rightarrow> task \<Rightarrow> task option" where
  "assignField ev key v t =
     (if key = ''title'' then
        (case v of JString s \<Rightarrow> Some (t\<lparr>title := s\<rparr>) | _ \<Rightarrow> None)
      else if key = ''description'' then
        (case v of JString s \<Rightarrow> Some (t\<lparr>description := s\<rparr>) | _ \<Rightarrow> None)
      else if key = ''location'' then
        (case v of JString s \<Rightarrow> Some (t\<lparr>location := s\<rparr>) | _ \<Rightarrow> None)
      else if key = ''priority'' then
        (case v of JString s \<Rightarrow> Some (t\<lparr>priority := s\<rparr>) | _ \<Rightarrow> None)
      else if key = ''status'' then
        (case v of JString s \<Rightarrow> Some (t\<lparr>status := s\<rparr>) | _ \<Rightarrow> None)
      else if key = ''taskType'' then
        (case v of JString s \<Rightarrow> Some (t\<lparr>taskType := s\<rparr>) | _ \<Rightarrow> None)
      else if key = ''createdBy'' then
        (case v of
           JString s \<Rightarrow> if isValidObjectId ev s then Some (t\<lparr>createdBy := s\<rparr>) else None
         | _ \<Rightarrow> None)
      else if key = ''department'' then
        (case v of
           JString s \<Rightarrow> if isValidObjectId ev s then Some (t\<lparr>t_department := s\<rparr>) else None
         | _ \<Rightarrow> None)
      else if key = ''company'' then
        (case v of
           JString s \<Rightarrow> if isValidObjectId ev s then Some (t\<lparr>t_company := s\<rparr>) else None
         | _ \<Rightarrow> None)
      else if key = ''dueDate'' then
        (case parseDate ev v of Some d \<Rightarrow> Some (t\<lparr>dueDate := d\<rparr>) | None \<Rightarrow> None)
      else if key = ''assignedTo'' then
        (case v of
           JArray ids \<Rightarrow>
             if list_all (isValidObjectId ev) ids then Some (t\<lparr>assignedTo := Some ids\<rparr>) else None
         | _ \<Rightarrow> None)
      else if key = ''clientInfo'' then
        (case v of JObject ci \<Rightarrow> Some (t\<lparr>clientInfo := Some ci\<rparr>) | _ \<Rightarrow> None)
      else Some t)"

text \<open>
  \<open>task[key] = value\<close> on the document being updated: a value that cannot be cast leaves
  the path as it was and records the cast error.
\<close>

definition setField :: "env \<Rightarrow> string \<Rightarrow> jsvalue \<Rightarrow> update_state \<Rightarrow> update_state" where
  "setField ev key v st =
     (case assignField ev key v (us_task st) of
        None \<Rightarrow> st\<lparr>castFailed := True\<rparr>
      | Some t \<Rightarrow> st\<lparr>us_task := t\<rparr>)"

text \<open>
  \<open>Object.keys(updateData).forEach(...)\<close>: for each key that is an allowed update, in
  order, assign. For the key \<open>assignedTo\<close> the source first computes
  \<open>updateData[key].map(...)\<close> and \<open>task[key].map(...)\<close>, a TypeError on a value that is no
  array and on an absent \<open>assignedTo\<close>, and then calls \<open>arraysEqual\<close>. TaskController.js
  neither declares nor imports \<open>arraysEqual\<close>, so that call throws a ReferenceError and
  the assignment after it is never reached: \<open>hasAssignedToChange\<close> keeps its initial
  value.
\<close>

fun applyUpdates ::
  "env \<Rightarrow> (string \<times> jsvalue) list \<Rightarrow> string list \<Rightarrow> string list \<Rightarrow> update_state
     \<Rightarrow> failure + update_state" where
  "applyUpdates ev updateData allowed [] st = Inr st"
| "applyUpdates ev updateData allowed (key # keys) st =
     (if key \<in> set allowed then
        (case map_of updateData key of
           None \<Rightarrow> applyUpdates ev updateData allowed keys st
         | Some v \<Rightarrow>
             if key = ''assignedTo'' then
               (case v of
                  JArray newAssignees \<Rightarrow>
                    (case assignedTo (us_task st) of
                       None \<Rightarrow> Inl (Thrown ''TypeError'')
                     | Some oldAssignees \<Rightarrow> Inl (Thrown ''ReferenceError''))
                | _ \<Rightarrow> Inl (Thrown ''TypeError''))
             else applyUpdates ev updateData allowed keys (setField ev key v st))
      else applyUpdates ev updateData allowed keys st)"

text \<open>\<open>JSON.stringify(task[key]) !== JSON.stringify(originalTaskState[key])\<close>.\<close>

definition fieldChanged :: "string \<Rightarrow> task \<Rightarrow> task \<Rightarrow> bool" where
  "fieldChanged key t orig =
     (if key = ''title'' then title t \<noteq> title orig
      else if key = ''description'' then description t \<noteq> description orig
      else if key = ''location'' then location t \<noteq> location orig
      else if key = ''dueDate'' then dueDate t \<noteq> dueDate orig
      else if key = ''priority'' then priority t \<noteq> priority orig
      else if key = ''assignedTo'' then assignedTo t \<noteq> assignedTo orig
      else if key = ''clientInfo'' then clientInfo t \<noteq> clientInfo orig
      else False)"

text \<open>\<open>task.assignedTo?.map((id) => id.toString()) || []\<close>.\<close>

definition assigneesOf :: "task \<Rightarrow> oid list" where
  "assigneesOf t = (case assignedTo t of None \<Rightarrow> [] | Some ids \<Rightarrow> ids)"

text \<open>
  \<open>User.countDocuments({_id: {$in: ids}, company, department})\<close> with the updating
  user's company and department (no \<open>isActive\<close> condition here).
\<close>

definition countValidUsers :: "store \<Rightarrow> user \<Rightarrow> oid list \<Rightarrow> nat" where
  "countValidUsers db usr ids =
     length (filter (\<lambda>u. u_id u \<in> set ids \<and> u_company u = u_company usr \<and>
                         u_department u = u_department usr) (users db))"

text \<open>
  \<open>task.save()\<close> of the updated document: validation fails on a recorded cast error, on
  the Task schema, on an empty client name and on a modified phone that does not match;
  the pre-save hook then rewrites a modified phone.
\<close>

definition saveUpdatedTask :: "env \<Rightarrow> update_state \<Rightarrow> task \<Rightarrow> failure + task" where
  "saveUpdatedTask ev st orig =
     (let t = us_task st in
      if castFailed st then Inl (Thrown ''ValidationError'')
      else if \<not> taskSchemaValid ev t then Inl (Thrown ''ValidationError'')
      else
        (case clientInfo t of
           None \<Rightarrow> Inr t
         | Some ci \<Rightarrow>
             if ci_name ci = [] then Inl (Thrown ''ValidationError'')
             else if map_option ci_phone (clientInfo orig) = Some (ci_phone ci) then Inr t
             else if \<not> validPhone (ci_phone ci) then Inl (Thrown ''ValidationError'')
             else Inr (t\<lparr>clientInfo := Some (ci\<lparr>ci_phone := formatPhone (ci_phone ci)\<rparr>)\<rparr>)))"

definition updateNotification :: "user \<Rightarrow> task \<Rightarrow> string \<Rightarrow> oid \<Rightarrow> notification" where
  "updateNotification usr t msg userId =
     \<lparr> n_user = userId,
       n_message = msg @ title t,
       n_type = ''TaskUpdate'',
       n_task = None,
       n_company = u_company usr,
       n_department = u_department usr,
       linkedDocument = t_id t,
       linkedDocumentType = ''Task'' \<rparr>"

text \<open>
  \<open>User.find({company, department, role: {$in: ["Manager", "SuperAdmin"]},
  _id: {$ne: user._id}})\<close>.
\<close>

definition findLeaders :: "store \<Rightarrow> user \<Rightarrow> user list" where
  "findLeaders db usr =
     filter (\<lambda>u. u_company u = u_company usr \<and> u_department u = u_department usr \<and>
                 role u \<in> set [''Manager'', ''SuperAdmin''] \<and> u_id u \<noteq> u_id usr) (users db)"

text \<open>The notification logic after the save.\<close>

definition updateNotifications ::
  "store \<Rightarrow> user \<Rightarrow> task \<Rightarrow> bool \<Rightarrow> oid list \<Rightarrow> string list \<Rightarrow> bool \<Rightarrow> notification list" where
  "updateNotifications db usr t isCreator originalAssignedTo changedFields hasChange =
     (let currentAssignedTo = assigneesOf t;
          forNew =
            (if taskType t = ''AssignedTask'' \<and> hasChange
             then map (updateNotification usr t ''Assigned to task: '')
                    (filter (\<lambda>i. i \<notin> set originalAssignedTo) currentAssignedTo)
             else []);
          hasImportantChange =
            (list_ex (\<lambda>f. f \<in> set [''title'', ''dueDate'', ''priority'', ''companyInfo''])
               changedFields \<or> hasChange)
      in if hasImportantChange then
           forNew @
           (if isCreator then [] else [updateNotification usr t ''Task updated: '' (createdBy t)]) @
           (if taskType t = ''AssignedTask''
            then map (updateNotification usr t ''Task modified: '')
                   (filter (\<lambda>i. i \<noteq> u_id usr) originalAssignedTo)
            else []) @
           (if taskType t = ''ProjectTask''
            then map (\<lambda>l. updateNotification usr t ''Project task updated: '' (u_id l))
                   (findLeaders db usr)
            else [])
         else forNew)"

text \<open>
  The assignee validation of updateTaskById, run when the task is an AssignedTask and
  \<open>updateData.assignedTo\<close> is there: ids that are no object ids make the query throw a
  cast error; a count other than the length of the list is a CustomError with status 400
  and no code.
\<close>

definition validateAssignedTo ::
  "env \<Rightarrow> store \<Rightarrow> user \<Rightarrow> task \<Rightarrow> (string \<times> jsvalue) list \<Rightarrow> failure option" where
  "validateAssignedTo ev db usr task updateData =
     (if taskType task = ''AssignedTask'' then
        (case map_of updateData ''assignedTo'' of
           Some (JArray ids) \<Rightarrow>
             if \<not> list_all (isValidObjectId ev) ids then Some (Thrown ''CastError'')
             else if countValidUsers db usr ids \<noteq> length ids then Some (Failure 400 None)
             else None
         | _ \<Rightarrow> None)
      else None)"

text \<open>
  The changed fields, then the special handling of \<open>assignedTo\<close>: on an AssignedTask
  the source calls \<open>arraysEqual(currentAssignedTo, originalAssignedTo)\<close>, which throws
  the ReferenceError; on any other task the block is skipped.
\<close>

definition changedFieldsOf ::
  "(string \<times> jsvalue) list \<Rightarrow> task \<Rightarrow> task \<Rightarrow> failure + string list" where
  "changedFieldsOf updateData t originalTaskState =
     (let changedFields =
            filter (\<lambda>key. key \<in> set (allowedUpdates originalTaskState) \<and>
                          fieldChanged key t originalTaskState)
              (map fst updateData)
      in if taskType originalTaskState = ''AssignedTask''
         then Inl (Thrown ''ReferenceError'')
         else Inr changedFields)"

text \<open>
  updateTaskById after the authorization check: strip the protected fields, apply the
  allowed updates, validate the assignees, compute the changed fields, save, build and
  insert the notifications, commit. A failure aborts the transaction. On an
  AssignedTask the computation of the changed fields throws before the save, so no
  update of an AssignedTask is ever stored.
\<close>

definition performUpdate ::
  "env \<Rightarrow> store \<Rightarrow> user \<Rightarrow> task \<Rightarrow> bool \<Rightarrow> (string \<times> jsvalue) list \<Rightarrow> failure + (task \<times> store)" where
  "performUpdate ev db usr task isCreator body =
     (let updateData = filter (\<lambda>kv. fst kv \<notin> set protectedFields) body in
      (case applyUpdates ev updateData (allowedUpdates task) (map fst updateData)
               \<lparr> us_task = task, hasAssignedToChange = False, castFailed = False \<rparr> of
         Inl e \<Rightarrow> Inl e
       | Inr st \<Rightarrow>
           (case validateAssignedTo ev db usr task updateData of
              Some e \<Rightarrow> Inl e
            | None \<Rightarrow>
                (case changedFieldsOf updateData (us_task st) task of
                   Inl e \<Rightarrow> Inl e
                 | Inr changedFields \<Rightarrow>
                     (case saveUpdatedTask ev st task of
                        Inl e \<Rightarrow> Inl e
                      | Inr saved \<Rightarrow>
                          Inr (saved,
                               db\<lparr>tasks := map (\<lambda>x. if t_id x = t_id saved then saved else x)
                                              (tasks db),
                                  notifications := notifications db @
                                    updateNotifications db usr saved isCreator
                                      (assigneesOf task) changedFields
                                      (hasAssignedToChange st)\<rparr>))))))"

text \<open>updateTaskById: id format, the User role, the task, the authorization check.\<close>

definition updateTaskById ::
  "env \<Rightarrow> store \<Rightarrow> user \<Rightarrow> string \<Rightarrow> (string \<times> jsvalue) list \<Rightarrow> failure + (task \<times> store)" where
  "updateTaskById ev db usr taskId body =
     (if \<not> isValidObjectId ev taskId then Inl (Failure 400 (Some ''INVALID_TASK_ID''))
      else if role usr = ''User'' then Inl (Failure 403 (Some ''PERMISSION_DENIED''))
      else
        (case findTaskById db taskId of
           None \<Rightarrow> Inl (Failure 404 (Some ''TASK_NOT_FOUND''))
         | Some task \<Rightarrow>
             let isCreator = (createdBy task = u_id usr);
                 isManagerPlus = (role usr \<in> set [''SuperAdmin'', ''Manager'']);
                 validDepartment = (t_department task = u_department usr)
             in if \<not> (isCreator \<or> (isManagerPlus \<and> validDepartment))
                then Inl (Failure 403 (Some ''PERMISSION_DENIED''))
                else performUpdate ev db usr task isCreator body))"

section \<open>The PUT /tasks/:taskId route (authMiddleware.js, TaskRoutes.js)\<close>

text \<open>
  An Express request as the middlewares of the route see it. \<open>req_user\<close> is
  \<open>req.user\<close>, set by verifyJWT. After verifyJWT both references of the user are
  populated, and \<open>req.user.company._id\<close>, \<open>req.user.department._id\<close> are the ids the
  user document holds.
\<close>

record request =
  access_token :: "string option"
  req_params :: "(string \<times> string) list"
  req_body :: "(string \<times> jsvalue) list"
  req_query :: "(string \<times> string) list"
  req_user :: "principal option"

text \<open>Truthiness of a property that may be absent.\<close>

definition jsTruthy :: "jsvalue option \<Rightarrow> bool" where
  "jsTruthy v = (case v of None \<Rightarrow> False | Some (JString s) \<Rightarrow> s \<noteq> [] | Some _ \<Rightarrow> True)"

text \<open>
  The resource id a middleware extracts: \<open>req.params[p]\<close>, overridden by a truthy
  \<open>req.body[k]\<close>, overridden by a truthy \<open>req.query[k]\<close>; \<open>None\<close> for \<open>null\<close>.
\<close>

definition resourceId :: "request \<Rightarrow> string \<Rightarrow> string \<Rightarrow> jsvalue option" where
  "resourceId req p k =
     (if truthy (map_of (req_query req) k) then Some (JString (str (map_of (req_query req) k)))
      else if jsTruthy (map_of (req_body req) k) then map_of (req_body req) k
      else if truthy (map_of (req_params req) p) then Some (JString (str (map_of (req_params req) p)))
      else None)"

text \<open>\<open>obj[k] = v\<close> on an object given by its entries.\<close>

definition setProperty :: "string \<Rightarrow> jsvalue \<Rightarrow> (string \<times> jsvalue) list \<Rightarrow> (string \<times> jsvalue) list" where
  "setProperty k v kvs =
     (if k \<in> set (map fst kvs) then map (\<lambda>kv. if fst kv = k then (k, v) else kv) kvs
      else kvs @ [(k, v)])"

definition verifyJWT_request :: "env \<Rightarrow> store \<Rightarrow> request \<Rightarrow> failure + request" where
  "verifyJWT_request ev db req =
     (case verifyJWT ev db (access_token req) of
        Inl e \<Rightarrow> Inl e
      | Inr p \<Rightarrow> Inr (req\<lparr>req_user := Some p\<rparr>))"

definition authorizeRoles :: "string list \<Rightarrow> request \<Rightarrow> failure + request" where
  "authorizeRoles allowedRoles req =
     (case req_user req of
        None \<Rightarrow> Inl (Failure 401 (Some ''AUTHENTICATION_REQUIRED''))
      | Some p \<Rightarrow>
          if role (p_user p) \<notin> set allowedRoles
          then Inl (Failure 403 (Some ''INSUFFICIENT_PERMISSIONS''))
          else Inr req)"

text \<open>
  verifyCompanyAccess. Without a company in the request it writes the user's company
  into \<open>req.body.company\<close>; \<open>equals\<close> is false on anything that is not that id.
\<close>

definition verifyCompanyAccess :: "request \<Rightarrow> failure + request" where
  "verifyCompanyAccess req =
     (case req_user req of
        None \<Rightarrow> Inl (Failure 401 (Some ''AUTHENTICATION_REQUIRED''))
      | Some p \<Rightarrow>
          (case resourceId req ''companyId'' ''company'' of
             None \<Rightarrow>
               Inr (req\<lparr>req_body := setProperty ''company'' (JString (u_company (p_user p))) (req_body req)\<rparr>)
           | Some rc \<Rightarrow>
               if rc \<noteq> JString (u_company (p_user p))
               then Inl (Failure 403 (Some ''CROSS_COMPANY_ACCESS_DENIED''))
               else Inr req))"

text \<open>
  \<open>Department.findById(resourceDepartmentId)\<close>. A string that is no object id, and an
  object, cannot be cast: the query throws a cast error. An array is cast element by
  element and queried as \<open>$in\<close>: the first department whose id is in it.
\<close>

definition findDepartment :: "env \<Rightarrow> store \<Rightarrow> jsvalue \<Rightarrow> failure + department option" where
  "findDepartment ev db rd =
     (case rd of
        JString s \<Rightarrow>
          if \<not> isValidObjectId ev s then Inl (Thrown ''CastError'')
          else Inr (find (\<lambda>d. d_id d = s) (departments db))
      | JArray ids \<Rightarrow>
          if \<not> list_all (isValidObjectId ev) ids then Inl (Thrown ''CastError'')
          else Inr (find (\<lambda>d. d_id d \<in> set ids) (departments db))
      | JObject ob \<Rightarrow> Inl (Thrown ''CastError''))"

text \<open>\<open>id.equals(value)\<close>: true of the string of that id, false of an array or object.\<close>

definition equalsId :: "oid \<Rightarrow> jsvalue \<Rightarrow> bool" where
  "equalsId i v = (v = JString i)"

text \<open>
  verifyDepartmentAccess. Every exception, the cast error of the query among them, is
  caught and answered with 500 DEPARTMENT_ACCESS_ERROR.
\<close>

definition verifyDepartmentAccess :: "env \<Rightarrow> store \<Rightarrow> request \<Rightarrow> failure + request" where
  "verifyDepartmentAccess ev db req =
     (case req_user req of
        None \<Rightarrow> Inl (Failure 401 (Some ''AUTHENTICATION_REQUIRED''))
      | Some p \<Rightarrow>
          let usr = p_user p in
          if role usr = ''SuperAdmin'' then Inr req
          else
            (case resourceId req ''departmentId'' ''department'' of
               None \<Rightarrow> Inr req
             | Some rd \<Rightarrow>
                 (case findDepartment ev db rd of
                    Inl e \<Rightarrow> Inl (Failure 500 (Some ''DEPARTMENT_ACCESS_ERROR''))
                  | Inr None \<Rightarrow> Inl (Failure 404 (Some ''DEPARTMENT_NOT_FOUND''))
                  | Inr (Some dept) \<Rightarrow>
                      if d_company dept \<noteq> u_company usr
                      then Inl (Failure 403 (Some ''CROSS_COMPANY_ACCESS_DENIED''))
                      else if role usr = ''Manager'' then
                        (let managedDepartments =
                               filter (\<lambda>d. d_company d = u_company usr \<and> u_id usr \<in> set (managers d))
                                 (departments db);
                             canAccess = (equalsId (u_department usr) rd \<or>
                                          list_ex (\<lambda>d. equalsId (d_id d) rd) managedDepartments)
                         in if canAccess then Inr req
                            else Inl (Failure 403 (Some ''DEPARTMENT_ACCESS_DENIED'')))
                      else if role usr = ''User'' then
                        (if equalsId (u_department usr) rd then Inr req
                         else Inl (Failure 403 (Some ''DEPARTMENT_ACCESS_DENIED'')))
                      else Inr req)))"

text \<open>
  The handlers that \<open>router.put("/:taskId", verifyJWT, authorizeRoles(["SuperAdmin",
  "Manager"]), verifyCompanyAccess, verifyDepartmentAccess, updateTaskById)\<close> runs before
  the controller: each runs only if the one before it called \<open>next()\<close>.
\<close>

definition routeGuards :: "env \<Rightarrow> store \<Rightarrow> request \<Rightarrow> failure + request" where
  "routeGuards ev db req =
     (case verifyJWT_request ev db req of
        Inl e \<Rightarrow> Inl e
      | Inr r1 \<Rightarrow>
          (case authorizeRoles [''SuperAdmin'', ''Manager''] r1 of
             Inl e \<Rightarrow> Inl e
           | Inr r2 \<Rightarrow>
               (case verifyCompanyAccess r2 of
                  Inl e \<Rightarrow> Inl e
                | Inr r3 \<Rightarrow> verifyDepartmentAccess ev db r3)))"

text \<open>\<open>req.params.taskId\<close>.\<close>

definition taskIdOf :: "request \<Rightarrow> string" where
  "taskIdOf req = str (map_of (req_params req) ''taskId'')"

text \<open>PUT /tasks/:taskId: the guards, then updateTaskById on the request they pass on.\<close>

definition putTask :: "env \<Rightarrow> store \<Rightarrow> request \<Rightarrow> failure + (task \<times> store)" where
  "putTask ev db req =
     (case routeGuards ev db req of
        Inl e \<Rightarrow> Inl e
      | Inr r \<Rightarrow>
          (case req_user r of
             None \<Rightarrow> Inl (Thrown ''TypeError'')
           | Some p \<Rightarrow> updateTaskById ev db (p_user p) (taskIdOf r) (req_body r)))"

section \<open>Status transitions (TaskActivityModel.js)\<close>

text \<open>The table \<open>validTransitions\<close> of TaskActivityModel.js.\<close>

definition validTransitions :: "(string \<times> string list) list" where
  "validTransitions =
     [(''To Do'', [''In Progress'', ''Pending'']),
      (''In Progress'', [''In Progress'', ''Completed'', ''Pending'']),
      (''Completed'', [''Pending'', ''In Progress'']),
      (''Pending'', [''In Progress'', ''Completed''])]"

text \<open>\<open>Object.keys(validTransitions)\<close>: the enum of \<open>statusChange.from\<close> and \<open>statusChange.to\<close>.\<close>

definition statusEnum :: "string list" where
  "statusEnum = map fst validTransitions"

text \<open>
  Validation of \<open>statusChange\<close> by the schema of TaskActivityModel.js: \<open>from\<close> is
  optional and, when there, must be in the enum; \<open>to\<close> is required and must be in the
  enum. This is all the file does with the table: no pair is looked up in it.
\<close>

definition statusChangeValid :: "string option \<Rightarrow> string option \<Rightarrow> bool" where
  "statusChangeValid from to =
     ((case from of None \<Rightarrow> True | Some f \<Rightarrow> f \<in> set statusEnum) \<and>
      (case to of None \<Rightarrow> False | Some t \<Rightarrow> t \<in> set statusEnum))"

text \<open>The pairs of the table \<open>validTransitions\<close>.\<close>

definition tablePairs :: "(string \<times> string) list" where
  "tablePairs = concat (map (\<lambda>row. map (Pair (fst row)) (snd row)) validTransitions)"

text \<open>The transition table as the specification lists it.\<close>

definition specTransitions :: "(string \<times> string) list" where
  "specTransitions =
     [(''To Do'', ''In Progress''), (''To Do'', ''Pending''),
      (''In Progress'', ''In Progress''), (''In Progress'', ''Completed''),
      (''In Progress'', ''Pending''),
      (''Completed'', ''Pending''), (''Completed'', ''In Progress''),
      (''Pending'', ''In Progress''), (''Pending'', ''Completed'')]"

section \<open>Predicates of the properties\<close>

text \<open>An id resolves to an active user in the company and department of \<open>usr\<close>.\<close>

definition resolves :: "store \<Rightarrow> user \<Rightarrow> oid \<Rightarrow> bool" where
  "resolves db usr i =
     list_ex (\<lambda>u. u_id u = i \<and> u_company u = u_company usr \<and>
                  u_department u = u_department usr \<and> isActive u) (users db)"

text \<open>An active Manager or SuperAdmin of the company and department of \<open>usr\<close>.\<close>

definition activeLeaderFor :: "user \<Rightarrow> user \<Rightarrow> bool" where
  "activeLeaderFor usr u =
     (u_company u = u_company usr \<and> u_department u = u_department usr \<and>
      role u \<in> {''Manager'', ''SuperAdmin''} \<and> isActive u)"

text \<open>Every key that updateTaskById may allow, for either variant.\<close>

definition updatableKeys :: "string list" where
  "updatableKeys = [''title'', ''description'', ''location'', ''dueDate'', ''priority'',
                    ''assignedTo'', ''clientInfo'']"

text \<open>The id of a task and the fields an update is not to touch.\<close>

definition frame :: "task \<Rightarrow> oid \<times> string \<times> oid \<times> oid \<times> string" where
  "frame t = (t_id t, taskType t, createdBy t, t_department t, status t)"

text \<open>The value a payload gives for a key is the one the task holds.\<close>

definition holdsValue :: "env \<Rightarrow> task \<Rightarrow> string \<Rightarrow> jsvalue \<Rightarrow> bool" where
  "holdsValue ev t key v =
     (if key = ''title'' then v = JString (title t)
      else if key = ''description'' then v = JString (description t)
      else if key = ''location'' then v = JString (location t)
      else if key = ''priority'' then v = JString (priority t)
      else if key = ''dueDate'' then parseDate ev v = Some (dueDate t)
      else if key = ''assignedTo'' then (case assignedTo t of None \<Rightarrow> False | Some ids \<Rightarrow> v = JArray ids)
      else if key = ''clientInfo'' then (case clientInfo t of None \<Rightarrow> False | Some ci \<Rightarrow> v = JObject ci)
      else True)"

text \<open>
  A payload identical to the current state of the task: every entry under a key that
  may be updated carries the value the task holds.
\<close>

definition identicalPayload :: "env \<Rightarrow> task \<Rightarrow> (string \<times> jsvalue) list \<Rightarrow> bool" where
  "identicalPayload ev t payload = list_all (\<lambda>kv. holdsValue ev t (fst kv) (snd kv)) payload"

section \<open>Example data\<close>

definition ex_env :: env where
  "ex_env =
     \<lparr> isValidObjectId = (\<lambda>s. length s = 2),
       jwt_verify = (\<lambda>t. if t = ''expired'' then Inl ''TokenExpiredError'' else Inr t),
       parseDate = (\<lambda>v. if v = JString ''tomorrow'' then Some 100
                        else if v = JString ''yesterday'' then Some 1 else None),
       now = 50,
       taskSchemaValid = (\<lambda>t. True),
       newObjectId = (\<lambda>db. [CHR ''n'', ''0123456789'' ! (length (tasks db) mod 10)]) \<rparr>"

definition ex_company_off :: company where
  "ex_company_off = \<lparr> c_id = ''c9'', c_isActive = False, subscription_status = ''active'' \<rparr>"

definition ex_dept9 :: department where
  "ex_dept9 = \<lparr> d_id = ''d9'', d_company = ''c9'', managers = [], d_isActive = True \<rparr>"

definition ex_user9 :: user where
  "ex_user9 = \<lparr> u_id = ''u9'', role = ''Manager'', u_company = ''c9'', u_department = ''d9'',
                 isActive = True, isVerified = True \<rparr>"

definition ex_db_off :: store where
  "ex_db_off = \<lparr> users = [ex_user9], companies = [ex_company_off], departments = [ex_dept9],
                  tasks = [], notifications = [], activities = [] \<rparr>"

text \<open>
  A company with two departments. In department d1: the manager m1, the users u2 and
  u3 (u3 deactivated), the deactivated manager m4 and the super admin s5; in department d2:
  the user u6 and the manager m7. Task ta is an AssignedTask of d1 created by m1 and
  assigned to u2; task tp is a ProjectTask of d1 created by m1; task tb is an AssignedTask
  of d1 created by m7 when m7 belonged to d1.
\<close>

definition ex_company :: company where
  "ex_company = \<lparr> c_id = ''c1'', c_isActive = True, subscription_status = ''active'' \<rparr>"

definition ex_d1 :: department where
  "ex_d1 = \<lparr> d_id = ''d1'', d_company = ''c1'', managers = [''m1''], d_isActive = True \<rparr>"

definition ex_d2 :: department where
  "ex_d2 = \<lparr> d_id = ''d2'', d_company = ''c1'', managers = [''m7''], d_isActive = True \<rparr>"

definition mkUser :: "oid \<Rightarrow> string \<Rightarrow> oid \<Rightarrow> bool \<Rightarrow> user" where
  "mkUser i r d a = \<lparr> u_id = i, role = r, u_company = ''c1'', u_department = d,
                       isActive = a, isVerified = True \<rparr>"

definition ex_m1 :: user where "ex_m1 = mkUser ''m1'' ''Manager'' ''d1'' True"
definition ex_u2 :: user where "ex_u2 = mkUser ''u2'' ''User'' ''d1'' True"
definition ex_u3 :: user where "ex_u3 = mkUser ''u3'' ''User'' ''d1'' False"
definition ex_m4 :: user where "ex_m4 = mkUser ''m4'' ''Manager'' ''d1'' False"
definition ex_s5 :: user where "ex_s5 = mkUser ''s5'' ''SuperAdmin'' ''d1'' True"
definition ex_u6 :: user where "ex_u6 = mkUser ''u6'' ''User'' ''d2'' True"
definition ex_m7 :: user where "ex_m7 = mkUser ''m7'' ''Manager'' ''d2'' True"

definition ex_ta :: task where
  "ex_ta = \<lparr> t_id = ''ta'', taskType = ''AssignedTask'', title = ''Audit'', description = ''Books'',
             location = ''HQ'', dueDate = 100, priority = ''Medium'', status = ''To Do'',
             createdBy = ''m1'', t_company = ''c1'', t_department = ''d1'',
             assignedTo = Some [''u2''], clientInfo = None \<rparr>"

definition ex_tp :: task where
  "ex_tp = \<lparr> t_id = ''tp'', taskType = ''ProjectTask'', title = ''Install'', description = ''Rack'',
             location = ''Site'', dueDate = 100, priority = ''High'', status = ''To Do'',
             createdBy = ''m1'', t_company = ''c1'', t_department = ''d1'',
             assignedTo = None,
             clientInfo = Some \<lparr> ci_name = ''Abebe'', ci_phone = ''+251912345678'',
                                  ci_address = None \<rparr> \<rparr>"

definition ex_tb :: task where
  "ex_tb = ex_ta\<lparr> t_id := ''tb'', createdBy := ''m7'' \<rparr>"

definition ex_db :: store where
  "ex_db = \<lparr> users = [ex_m1, ex_u2, ex_u3, ex_m4, ex_s5, ex_u6, ex_m7],
              companies = [ex_company], departments = [ex_d1, ex_d2],
              tasks = [ex_ta, ex_tp, ex_tb], notifications = [], activities = [] \<rparr>"

definition ex_create :: create_body where
  "ex_create = \<lparr> b_taskType = Some ''AssignedTask'', b_assignedTo = Some [''u2''],
                  b_clientInfo = None, b_title = Some ''Audit'', b_description = Some ''Books'',
                  b_dueDate = Some ''tomorrow'', b_location = Some ''HQ'',
                  b_priority = None, b_status = None \<rparr>"

definition ex_create_project :: create_body where
  "ex_create_project =
     ex_create\<lparr> b_taskType := Some ''ProjectTask'', b_assignedTo := None,
                b_clientInfo := Some \<lparr> cb_name = Some ''Abebe'', cb_phone = Some ''0912345678'',
                                       cb_address = None \<rparr> \<rparr>"

lemmas ex_defs =
  ex_env_def ex_company_def ex_d1_def ex_d2_def mkUser_def ex_m1_def ex_u2_def ex_u3_def
  ex_m4_def ex_s5_def ex_u6_def ex_m7_def ex_ta_def ex_tp_def ex_tb_def ex_db_def
  ex_create_def ex_create_project_def

lemmas create_defs =
  createTask_def inputValidation_def missingFields_def requiredFields_def missingField_def
  trim_def isSpace_def str_def typeSpecificValidation_def findAssignedUsers_def
  findManagersAndAdmins_def transactionalCreation_def buildTask_def saveNewTask_def
  truthy_def orDefault_def storeAfter_def creationNotification_def validPhone_def
  formatPhone_def isDigit_def

text \<open>
  The store with one more task: tq, a ProjectTask of department d1 created by m7, who
  now belongs to department d2.
\<close>

definition ex_tq :: task where
  "ex_tq = ex_tp\<lparr> t_id := ''tq'', createdBy := ''m7'' \<rparr>"

definition ex_db2 :: store where
  "ex_db2 = ex_db\<lparr> tasks := tasks ex_db @ [ex_tq] \<rparr>"

definition ex_payload :: "(string \<times> jsvalue) list" where
  "ex_payload =
     [(''title'', JString ''Renamed''), (''status'', JString ''Completed''),
      (''taskType'', JString ''AssignedTask''), (''createdBy'', JString ''u2''),
      (''department'', JString ''d2'')]"

definition ex_same :: "(string \<times> jsvalue) list" where
  "ex_same =
     [(''title'', JString ''Install''), (''priority'', JString ''High''),
      (''clientInfo'', JObject \<lparr> ci_name = ''Abebe'', ci_phone = ''+251912345678'',
                                  ci_address = None \<rparr>),
      (''status'', JString ''To Do'')]"

definition ex_put :: "string \<Rightarrow> string \<Rightarrow> (string \<times> jsvalue) list \<Rightarrow> request" where
  "ex_put tok taskId payload =
     \<lparr> access_token = Some tok, req_params = [(''taskId'', taskId)],
       req_body = payload, req_query = [], req_user = None \<rparr>"

definition ex_rename :: "(string \<times> jsvalue) list" where
  "ex_rename = [(''title'', JString ''Renamed'')]"

lemmas update_defs =
  updateTaskById_def findTaskById_def performUpdate_def protectedFields_def allowedUpdates_def
  setField_def assignField_def validateAssignedTo_def countValidUsers_def changedFieldsOf_def
  fieldChanged_def assigneesOf_def saveUpdatedTask_def updateNotifications_def
  updateNotification_def findLeaders_def storeAfter_def Let_def

lemmas route_defs =
  putTask_def routeGuards_def taskIdOf_def verifyJWT_request_def verifyJWT_def
  findUserById_def populate_def authorizeRoles_def verifyCompanyAccess_def
  verifyDepartmentAccess_def findDepartment_def equalsId_def resourceId_def
  setProperty_def truthy_def jsTruthy_def str_def

section \<open>Properties\<close>

text \<open>
  The cascade of the guard once the token verifies and the user and both references are
  found: the five checks in the order of the source, each with its answer.
\<close>

lemma verifyJWT_cascade:
  assumes "tok \<noteq> []" and "jwt_verify ev tok = Inr userId" and "isValidObjectId ev userId"
    and "findUserById db userId = Some u"
    and "p_company (populate db u) = Some c" and "p_department (populate db u) = Some d"
  shows "verifyJWT ev db (Some tok) =
           (if \<not> isVerified u then Inl (Failure 401 (Some ''ACCOUNT_NOT_VERIFIED''))
            else if \<not> isActive u then Inl (Failure 401 (Some ''USER_DEACTIVATED''))
            else if \<not> c_isActive c then Inl (Failure 401 None)
            else if subscription_status c \<noteq> ''active''
            then Inl (Failure 403 (Some ''SUBSCRIPTION_INACTIVE''))
            else if \<not> d_isActive d then Inl (Failure 401 (Some ''DEPARTMENT_DEACTIVATED''))
            else Inr (populate db u))"
  using assms by (simp add: verifyJWT_def Let_def)

text \<open>
  C3. The guard checks, in order, unverified account, deactivated user, deactivated
  company, inactive subscription and deactivated department, and is to reject at the
  first failing check with that check's error code. At a verified, active user whose
  company is deactivated the code rejects with status 401 but with an empty body: no
  error code at all (the code COMPANY_DEACTIVATED, the specification's TENANT_DEACTIVATED,
  sits in an unreachable statement after the \<open>return\<close>).
\<close>

theorem C3_company_deactivated_has_no_code:
  "verifyJWT ex_env ex_db_off (Some ''u9'') = Inl (Failure 401 None)"
  by (simp add: verifyJWT_def ex_env_def ex_db_off_def ex_user9_def ex_company_off_def
      ex_dept9_def findUserById_def populate_def)

subsection \<open>Assignee validation on creation\<close>

lemma found_ids_distinct:
  "distinct (map u_id (users db)) \<Longrightarrow> distinct (map u_id (findAssignedUsers db usr ids))"
  by (simp add: findAssignedUsers_def distinct_map_filter)

lemma found_ids_set:
  "set (map u_id (findAssignedUsers db usr ids)) = {i \<in> set ids. resolves db usr i}"
  by (auto simp: findAssignedUsers_def resolves_def list_ex_iff)

lemma found_length:
  assumes "distinct (map u_id (users db))"
  shows "length (findAssignedUsers db usr ids) = card {i \<in> set ids. resolves db usr i}"
proof -
  have "length (findAssignedUsers db usr ids) = length (map u_id (findAssignedUsers db usr ids))"
    by simp
  also have "\<dots> = card (set (map u_id (findAssignedUsers db usr ids)))"
    using found_ids_distinct [OF assms] by (simp only: distinct_card)
  finally show ?thesis by (simp only: found_ids_set)
qed

lemma found_short:
  assumes d: "distinct (map u_id (users db))" and i: "i \<in> set ids" and n: "\<not> resolves db usr i"
  shows "length (findAssignedUsers db usr ids) < length ids"
proof -
  have "{j \<in> set ids. resolves db usr j} \<subset> set ids" using i n by auto
  then have "card {j \<in> set ids. resolves db usr j} < card (set ids)"
    by (simp add: psubset_card_mono)
  also have "\<dots> \<le> length ids" by (rule card_length)
  finally show ?thesis by (simp only: found_length [OF d])
qed

lemma found_all:
  assumes d: "distinct (map u_id (users db))" and a: "list_all (resolves db usr) ids"
    and di: "distinct ids"
  shows "length (findAssignedUsers db usr ids) = length ids"
proof -
  have "{j \<in> set ids. resolves db usr j} = set ids" using a by (auto simp: list_all_iff)
  then show ?thesis using di by (simp add: found_length [OF d] distinct_card)
qed

text \<open>
  C1, as the code has it. User ids are unique in the store. For an AssignedTask creation
  request that passes the input validation, with a non-empty list of well-formed ids:
  if some id does not resolve to an active user of the creator's company and department,
  createTask fails with status 404 and the code INVALID_ASSIGNED_USERS (the
  specification's INVALID_ASSIGNEES) and the store is left as it was; if every id
  resolves and no id occurs twice in the list, the type specific validation succeeds and
  createTask is the transactional creation with the receivers it computed.
\<close>

theorem C1_assignees_validated:
  assumes "distinct (map u_id (users db))"
    and "inputValidation ev b = Inr due"
    and "b_taskType b = Some ''AssignedTask''"
    and "b_assignedTo b = Some ids"
    and "ids \<noteq> []"
    and "list_all (isValidObjectId ev) ids"
  shows "(list_ex (\<lambda>i. \<not> resolves db usr i) ids \<longrightarrow>
            createTask ev db usr b = Inl (Failure 404 (Some ''INVALID_ASSIGNED_USERS'')) \<and>
            storeAfter db (createTask ev db usr b) = db) \<and>
         (list_all (resolves db usr) ids \<and> distinct ids \<longrightarrow>
            (\<exists>receivers. typeSpecificValidation ev db usr b = Inr receivers \<and>
               createTask ev db usr b = transactionalCreation ev db usr b due receivers))"
proof -
  have nofilter: "filter (\<lambda>i. \<not> isValidObjectId ev i) ids = []"
    using assms(6) by (simp add: list_all_iff filter_empty_conv)
  have tsv: "typeSpecificValidation ev db usr b =
      (if length (findAssignedUsers db usr ids) \<noteq> length ids
       then Inl (Failure 404 (Some ''INVALID_ASSIGNED_USERS''))
       else Inr (filter (\<lambda>i. i \<noteq> u_id usr) (map u_id (findAssignedUsers db usr ids))))"
    using assms(3,4,5) nofilter by (simp add: typeSpecificValidation_def str_def Let_def)
  have one: "createTask ev db usr b = Inl (Failure 404 (Some ''INVALID_ASSIGNED_USERS'')) \<and>
            storeAfter db (createTask ev db usr b) = db"
    if "list_ex (\<lambda>i. \<not> resolves db usr i) ids"
  proof -
    from that obtain i where "i \<in> set ids" "\<not> resolves db usr i" by (auto simp: list_ex_iff)
    then have "length (findAssignedUsers db usr ids) \<noteq> length ids"
      using found_short [OF assms(1)] by fastforce
    then show ?thesis using tsv assms(2) by (simp add: createTask_def storeAfter_def)
  qed
  have two: "\<exists>receivers. typeSpecificValidation ev db usr b = Inr receivers \<and>
               createTask ev db usr b = transactionalCreation ev db usr b due receivers"
    if "list_all (resolves db usr) ids" "distinct ids"
  proof -
    have "length (findAssignedUsers db usr ids) = length ids"
      using found_all [OF assms(1) that] .
    then show ?thesis using tsv assms(2) by (simp add: createTask_def)
  qed
  show ?thesis using one two by blast
qed

text \<open>
  The theorem at the example store: the list [u2, u3] holds the deactivated u3 and is
  rejected; the list [u2] passes.
\<close>

theorem C1_assignees_validated_witness:
  "createTask ex_env ex_db ex_m1 (ex_create\<lparr>b_assignedTo := Some [''u2'', ''u3'']\<rparr>)
     = Inl (Failure 404 (Some ''INVALID_ASSIGNED_USERS'')) \<and>
   (\<exists>receivers. typeSpecificValidation ex_env ex_db ex_m1 ex_create = Inr receivers \<and>
      createTask ex_env ex_db ex_m1 ex_create
        = transactionalCreation ex_env ex_db ex_m1 ex_create 100 receivers)"
proof -
  have d: "distinct (map u_id (users ex_db))" by (simp add: ex_defs)
  have v: "inputValidation ex_env (ex_create\<lparr>b_assignedTo := Some [''u2'', ''u3'']\<rparr>) = Inr 100"
    by (simp add: ex_defs create_defs)
  have v2: "inputValidation ex_env ex_create = Inr 100"
    by (simp add: ex_defs create_defs)
  have a: "list_ex (\<lambda>i. \<not> resolves ex_db ex_m1 i) [''u2'', ''u3'']"
    by (simp add: ex_defs resolves_def)
  have b: "list_all (resolves ex_db ex_m1) [''u2''] \<and> distinct [''u2'']"
    by (simp add: ex_defs resolves_def)
  have ok: "list_all (isValidObjectId ex_env) [''u2'', ''u3'']"
    "list_all (isValidObjectId ex_env) [''u2'']"
    by (simp_all add: ex_defs)
  from C1_assignees_validated [OF d v, of "[''u2'', ''u3'']" ex_m1] a ok(1)
  have one: "createTask ex_env ex_db ex_m1 (ex_create\<lparr>b_assignedTo := Some [''u2'', ''u3'']\<rparr>)
     = Inl (Failure 404 (Some ''INVALID_ASSIGNED_USERS''))"
    by (simp add: ex_create_def)
  from C1_assignees_validated [OF d v2, of "[''u2'']" ex_m1] b ok(2)
  have two: "\<exists>receivers. typeSpecificValidation ex_env ex_db ex_m1 ex_create = Inr receivers \<and>
      createTask ex_env ex_db ex_m1 ex_create
        = transactionalCreation ex_env ex_db ex_m1 ex_create 100 receivers"
    by (simp add: ex_create_def)
  show ?thesis using one two by simp
qed

text \<open>
  The claim as stated fails on a list that names a user twice: both entries of [u2, u2]
  are well-formed and resolve to the active user u2 of m1's company and department, yet
  the query finds one user for a list of length two and createTask answers
  INVALID_ASSIGNED_USERS.
\<close>

theorem C1_repeated_id_rejected:
  "list_all (isValidObjectId ex_env) [''u2'', ''u2''] \<and>
   list_all (resolves ex_db ex_m1) [''u2'', ''u2''] \<and>
   createTask ex_env ex_db ex_m1 (ex_create\<lparr>b_assignedTo := Some [''u2'', ''u2'']\<rparr>)
     = Inl (Failure 404 (Some ''INVALID_ASSIGNED_USERS''))"
  by (simp add: ex_defs resolves_def create_defs)

subsection \<open>Notification receivers on creation\<close>

lemma found_covers:
  assumes d: "distinct (map u_id (users db))"
    and l: "length (findAssignedUsers db usr ids) = length ids"
  shows "set (map u_id (findAssignedUsers db usr ids)) = set ids"
proof -
  let ?S = "{i \<in> set ids. resolves db usr i}"
  have "card (set ids) \<le> length ids" by (rule card_length)
  also have "\<dots> = card ?S" using found_length [OF d, of usr ids] l by simp
  finally have "card (set ids) \<le> card ?S" .
  moreover have "?S \<subseteq> set ids" by auto
  ultimately have "?S = set ids" by (simp add: card_seteq)
  then show ?thesis by (simp only: found_ids_set)
qed

lemma saveNewTask_fields:
  "saveNewTask ev new = Inr t \<Longrightarrow>
     assignedTo t = assignedTo new \<and> taskType t = taskType new \<and> status t = status new \<and>
     priority t = priority new \<and> createdBy t = createdBy new"
  by (auto simp: saveNewTask_def split: if_splits option.splits)

lemma buildTask_fields:
  "buildTask ev db usr b due = Inr new \<Longrightarrow>
     taskType new = str (b_taskType b) \<and>
     status new = orDefault (b_status b) ''To Do'' \<and>
     priority new = orDefault (b_priority b) ''Medium'' \<and>
     createdBy new = u_id usr \<and>
     (str (b_taskType b) = ''AssignedTask'' \<longrightarrow> assignedTo new = b_assignedTo b)"
  by (auto simp: buildTask_def Let_def split: if_splits option.splits)

lemma createTask_success:
  assumes "createTask ev db usr b = Inr (t, db')"
  shows "\<exists>due rs new. inputValidation ev b = Inr due \<and>
           typeSpecificValidation ev db usr b = Inr rs \<and>
           buildTask ev db usr b due = Inr new \<and> saveNewTask ev new = Inr t \<and>
           tasks db' = tasks db @ [t] \<and>
           notifications db' = notifications db @
             map (creationNotification usr (str (b_taskType b)) t) rs \<and>
           activities db' = activities db \<and> users db' = users db"
  using assms
  by (auto simp: createTask_def transactionalCreation_def split: sum.splits)

lemma n_user_creationNotification:
  "map n_user (map (creationNotification usr ty t) rs) = rs"
  by (induction rs) (simp_all add: creationNotification_def)

lemma receivers_assigned:
  assumes d: "distinct (map u_id (users db))"
    and ty: "str (b_taskType b) = ''AssignedTask''"
    and v: "typeSpecificValidation ev db usr b = Inr rs"
  shows "\<exists>ids. b_assignedTo b = Some ids \<and> set rs = set ids - {u_id usr}"
proof -
  from v ty obtain ids where ids: "b_assignedTo b = Some ids"
    and len: "length (findAssignedUsers db usr ids) = length ids"
    and rs: "rs = filter (\<lambda>i. i \<noteq> u_id usr) (map u_id (findAssignedUsers db usr ids))"
    by (auto simp: typeSpecificValidation_def Let_def split: option.splits if_splits)
  have "set rs = set (map u_id (findAssignedUsers db usr ids)) - {u_id usr}"
    unfolding rs by auto
  then show ?thesis using ids found_covers [OF d len] by simp
qed

lemma receivers_project:
  assumes ty: "str (b_taskType b) = ''ProjectTask''"
    and v: "typeSpecificValidation ev db usr b = Inr rs"
  shows "set rs = u_id ` {u \<in> set (users db). activeLeaderFor usr u} - {u_id usr}"
  using v ty
  by (auto simp: typeSpecificValidation_def findManagersAndAdmins_def activeLeaderFor_def
      split: option.splits if_splits)

text \<open>
  C5, as the code has it. User ids are unique in the store. For every successful task
  creation the notifications inserted are appended to the collection, and the set of
  their recipients is: for an AssignedTask, the assigned users except the creator; for a
  ProjectTask, the active Managers and SuperAdmins of the creator's company and
  department except the creator. A created task is of one of the two variants, and the
  creator is never a recipient.
\<close>

theorem C5_creation_recipients:
  assumes "distinct (map u_id (users db))"
    and "createTask ev db usr b = Inr (t, db')"
  shows "\<exists>ns. notifications db' = notifications db @ ns \<and>
           (taskType t = ''AssignedTask'' \<longrightarrow>
              set (map n_user ns) = set (assigneesOf t) - {u_id usr}) \<and>
           (taskType t = ''ProjectTask'' \<longrightarrow>
              set (map n_user ns) =
                u_id ` {u \<in> set (users db). activeLeaderFor usr u} - {u_id usr}) \<and>
           (taskType t = ''AssignedTask'' \<or> taskType t = ''ProjectTask'') \<and>
           u_id usr \<notin> set (map n_user ns)"
proof -
  from createTask_success [OF assms(2)] obtain due rs new where
    iv: "inputValidation ev b = Inr due" and
    tv: "typeSpecificValidation ev db usr b = Inr rs" and
    bt: "buildTask ev db usr b due = Inr new" and
    sv: "saveNewTask ev new = Inr t" and
    ns: "notifications db' = notifications db @
           map (creationNotification usr (str (b_taskType b)) t) rs"
    by blast
  let ?ns = "map (creationNotification usr (str (b_taskType b)) t) rs"
  have ty: "taskType t = str (b_taskType b)"
    using saveNewTask_fields [OF sv] buildTask_fields [OF bt] by simp
  have ty2: "taskType t = ''AssignedTask'' \<or> taskType t = ''ProjectTask''"
    using iv ty by (auto simp: inputValidation_def split: if_splits option.splits)
  have mn: "map n_user ?ns = rs" by (rule n_user_creationNotification)
  have a: "set rs = set (assigneesOf t) - {u_id usr}"
    if "taskType t = ''AssignedTask''"
  proof -
    from that ty have s: "str (b_taskType b) = ''AssignedTask''" by simp
    from receivers_assigned [OF assms(1) s tv] obtain ids where
      "b_assignedTo b = Some ids" "set rs = set ids - {u_id usr}" by blast
    moreover have "assignedTo t = b_assignedTo b"
      using saveNewTask_fields [OF sv] buildTask_fields [OF bt] s by simp
    ultimately show ?thesis by (simp add: assigneesOf_def)
  qed
  have p: "set rs =
                u_id ` {u \<in> set (users db). activeLeaderFor usr u} - {u_id usr}"
    if "taskType t = ''ProjectTask''"
    using receivers_project [OF _ tv] that ty by simp
  have c: "u_id usr \<notin> set rs"
    using a p ty2 by blast
  have all: "notifications db' = notifications db @ ?ns \<and>
           (taskType t = ''AssignedTask'' \<longrightarrow> set rs = set (assigneesOf t) - {u_id usr}) \<and>
           (taskType t = ''ProjectTask'' \<longrightarrow>
              set rs =
                u_id ` {u \<in> set (users db). activeLeaderFor usr u} - {u_id usr}) \<and>
           (taskType t = ''AssignedTask'' \<or> taskType t = ''ProjectTask'') \<and>
           u_id usr \<notin> set rs"
    using ns a p c ty2 by blast
  show ?thesis
    apply (rule exI [of _ ?ns])
    apply (simp only: mn)
    apply (rule all)
    done
qed

text \<open>
  The theorem at the example store: m1 creates a ProjectTask in department d1, whose
  active managers and admins are m1 and s5; the one notification goes to s5.
\<close>

theorem C5_creation_recipients_witness:
  "\<exists>ns. notifications (storeAfter ex_db (createTask ex_env ex_db ex_m1 ex_create_project)) = ns \<and>
     set (map n_user ns) = {''s5''}"
proof -
  have d: "distinct (map u_id (users ex_db))" by (simp add: ex_defs)
  obtain t db' where r: "createTask ex_env ex_db ex_m1 ex_create_project = Inr (t, db')"
    and ty: "taskType t = ''ProjectTask''"
    by (simp add: ex_defs create_defs)
  have n0: "notifications ex_db = []" by (simp add: ex_defs)
  have f: "filter (activeLeaderFor ex_m1) (users ex_db) = [ex_m1, ex_s5]"
    by (simp add: ex_defs activeLeaderFor_def)
  have s: "u_id ` {u \<in> set (users ex_db). activeLeaderFor ex_m1 u} - {u_id ex_m1} = {''s5''}"
    unfolding set_filter [symmetric] f by (simp add: ex_defs)
  from C5_creation_recipients [OF d r] ty n0 s show ?thesis
    by (auto simp: r storeAfter_def)
qed

text \<open>
  The claim as stated fails for a deactivated manager: m4 is a Manager of m1's company
  and department and is not the creator, and the ProjectTask creation notifies s5 only,
  because the query of createTask asks for \<open>isActive: true\<close>.
\<close>

theorem C5_inactive_manager_not_notified:
  "ex_m4 \<in> set (users ex_db) \<and> role ex_m4 = ''Manager'' \<and>
   u_company ex_m4 = u_company ex_m1 \<and> u_department ex_m4 = u_department ex_m1 \<and>
   u_id ex_m4 \<noteq> u_id ex_m1 \<and>
   (case createTask ex_env ex_db ex_m1 ex_create_project of
      Inl e \<Rightarrow> False
    | Inr r \<Rightarrow> taskType (fst r) = ''ProjectTask'' \<and>
               map n_user (notifications (snd r)) = [''s5''] \<and>
               u_id ex_m4 \<notin> set (map n_user (notifications (snd r))))"
  by (simp add: ex_defs create_defs)


subsection \<open>Initial status and priority\<close>




subsection \<open>Reading tasks as a User\<close>

lemma baseTaskQuery_scope:
  "q_company (baseTaskQuery usr q) = u_company usr \<and>
   q_department (baseTaskQuery usr q) = u_department usr"
  by (simp add: baseTaskQuery_def Let_def)

lemma baseTaskQuery_departmentId:
  "baseTaskQuery usr (q\<lparr>lq_departmentId := x\<rparr>) = baseTaskQuery usr q"
  by (simp add: baseTaskQuery_def Let_def)

lemma baseTaskQuery_user:
  "role usr = ''User'' \<Longrightarrow>
     q_taskType (baseTaskQuery usr q) = Some ''AssignedTask'' \<and>
     q_assignedTo (baseTaskQuery usr q) = Some (u_id usr)"
  by (simp add: baseTaskQuery_def Let_def)

lemma matches_scope:
  "matches tq t \<Longrightarrow> t_company t = q_company tq \<and> t_department t = q_department tq"
  by (simp add: matches_def)

text \<open>The part of the property that the code satisfies: what a User lists.\<close>

lemma getAllTasks_user_lists_own_assignments:
  assumes "role usr = ''User''" and "getAllTasks ev db usr q = Inr ts"
  shows "list_all (\<lambda>t. taskType t = ''AssignedTask'' \<and> u_id usr \<in> set (assigneesOf t)) ts"
proof -
  from assms obtain tq where tq: "buildTaskQuery ev usr q = Inr tq"
    and ts: "ts = filter (matches tq) (tasks db)"
    by (auto simp: getAllTasks_def split: sum.splits)
  from tq assms(1) have "tq = baseTaskQuery usr q"
    by (auto simp: buildTaskQuery_def split: if_splits)
  then have "q_taskType tq = Some ''AssignedTask''" "q_assignedTo tq = Some (u_id usr)"
    using baseTaskQuery_user [OF assms(1)] by simp_all
  then show ?thesis unfolding ts
    by (auto simp: list_all_iff matches_def assigneesOf_def split: option.splits)
qed

text \<open>On a task that has an \<open>assignedTo\<close>, and on an id without a task, it holds too.\<close>

lemma getTaskById_user_on_assigned_task:
  assumes "role usr = ''User''" and "isValidObjectId ev taskId"
    and "findTaskById db taskId = Some t" and "assignedTo t = Some ids"
    and "u_id usr \<notin> set ids"
  shows "getTaskById ev db usr taskId = Inl (Failure 403 (Some ''FORBIDDEN''))"
  using assms by (simp add: getTaskById_def)

lemma getTaskById_absent:
  assumes "isValidObjectId ev taskId" and "findTaskById db taskId = None"
  shows "getTaskById ev db usr taskId = Inl (Failure 404 (Some ''TASK_NOT_FOUND''))"
  using assms by (simp add: getTaskById_def)

text \<open>
  C8. A User who fetches by id an existing task on which they are not a listed assignee
  is to be refused with FORBIDDEN. On a ProjectTask the code does not get that far: the
  document has no \<open>assignedTo\<close>, \<open>task.assignedTo.includes\<close> throws a TypeError, and the
  request ends in the error handler instead of the 403 FORBIDDEN answer. Here u2, of
  role User, fetches the ProjectTask tp.
\<close>

theorem C8_user_fetching_project_task_throws:
  "role ex_u2 = ''User'' \<and> findTaskById ex_db ''tp'' = Some ex_tp \<and>
   taskType ex_tp = ''ProjectTask'' \<and>
   getTaskById ex_env ex_db ex_u2 ''tp'' = Inl (Thrown ''TypeError'')"
  by (simp add: ex_defs getTaskById_def findTaskById_def)

subsection \<open>The department parameter of the task list\<close>

text \<open>
  C10, as the code has it. For a task-list request with a non-empty departmentId: a
  value that is no object id fails with INVALID_DEPARTMENT_ID whatever the role; a valid
  value replaces the queried department for a SuperAdmin, the company staying the
  user's; for every other role a valid value is ignored, the request answering as it
  does without the parameter. An empty departmentId is ignored like an absent one. For
  every role but SuperAdmin each task returned is of the user's company and department.
\<close>

theorem C10_departmentId:
  "(\<forall>d. lq_departmentId q = Some d \<and> d \<noteq> [] \<and> \<not> isValidObjectId ev d \<longrightarrow>
        getAllTasks ev db usr q = Inl (Failure 400 (Some ''INVALID_DEPARTMENT_ID''))) \<and>
   (\<forall>d. lq_departmentId q = Some d \<and> d \<noteq> [] \<and> isValidObjectId ev d \<and> role usr = ''SuperAdmin'' \<longrightarrow>
        (\<exists>tq. buildTaskQuery ev usr q = Inr tq \<and> q_department tq = d \<and>
              q_company tq = u_company usr \<and>
              getAllTasks ev db usr q = Inr (filter (matches tq) (tasks db)))) \<and>
   (\<forall>d. lq_departmentId q = Some d \<and> (d = [] \<or> isValidObjectId ev d \<and> role usr \<noteq> ''SuperAdmin'') \<longrightarrow>
        getAllTasks ev db usr q = getAllTasks ev db usr (q\<lparr>lq_departmentId := None\<rparr>)) \<and>
   (role usr \<noteq> ''SuperAdmin'' \<longrightarrow>
      (\<forall>ts. getAllTasks ev db usr q = Inr ts \<longrightarrow>
         list_all (\<lambda>t. t_company t = u_company usr \<and> t_department t = u_department usr) ts))"
proof (intro conjI allI impI)
  fix d assume "lq_departmentId q = Some d \<and> d \<noteq> [] \<and> \<not> isValidObjectId ev d"
  then show "getAllTasks ev db usr q = Inl (Failure 400 (Some ''INVALID_DEPARTMENT_ID''))"
    by (simp add: getAllTasks_def buildTaskQuery_def truthy_def str_def)
next
  fix d
  assume a: "lq_departmentId q = Some d \<and> d \<noteq> [] \<and> isValidObjectId ev d \<and> role usr = ''SuperAdmin''"
  then have "buildTaskQuery ev usr q = Inr ((baseTaskQuery usr q)\<lparr>q_department := d\<rparr>)"
    by (simp add: buildTaskQuery_def truthy_def str_def)
  then show "\<exists>tq. buildTaskQuery ev usr q = Inr tq \<and> q_department tq = d \<and>
              q_company tq = u_company usr \<and>
              getAllTasks ev db usr q = Inr (filter (matches tq) (tasks db))"
    by (simp add: getAllTasks_def baseTaskQuery_scope)
next
  fix d
  assume "lq_departmentId q = Some d \<and> (d = [] \<or> isValidObjectId ev d \<and> role usr \<noteq> ''SuperAdmin'')"
  then have "buildTaskQuery ev usr q = Inr (baseTaskQuery usr q)"
    by (auto simp: buildTaskQuery_def truthy_def str_def)
  moreover have "buildTaskQuery ev usr (q\<lparr>lq_departmentId := None\<rparr>) = Inr (baseTaskQuery usr q)"
    by (simp add: buildTaskQuery_def truthy_def baseTaskQuery_departmentId)
  ultimately show "getAllTasks ev db usr q = getAllTasks ev db usr (q\<lparr>lq_departmentId := None\<rparr>)"
    by (simp add: getAllTasks_def)
next
  fix ts
  assume r: "role usr \<noteq> ''SuperAdmin''" and g: "getAllTasks ev db usr q = Inr ts"
  from r have "buildTaskQuery ev usr q = Inr (baseTaskQuery usr q) \<or>
               (\<exists>e. buildTaskQuery ev usr q = Inl e)"
    by (simp add: buildTaskQuery_def)
  with g have "ts = filter (matches (baseTaskQuery usr q)) (tasks db)"
    by (auto simp: getAllTasks_def)
  then show "list_all (\<lambda>t. t_company t = u_company usr \<and> t_department t = u_department usr) ts"
    using matches_scope [of "baseTaskQuery usr q"] baseTaskQuery_scope [of usr q]
    by (auto simp: list_all_iff)
qed

text \<open>
  The theorem at the example store: the SuperAdmin s5 asking for d2 queries d2; the
  Manager m1 is refused on a malformed id, and asking for d2 gets what he gets without
  the parameter.
\<close>

theorem C10_departmentId_witness:
  "buildTaskQuery ex_env ex_s5 \<lparr>lq_status = None, lq_taskType = None, lq_departmentId = Some ''d2''\<rparr>
      = Inr \<lparr> q_company = ''c1'', q_department = ''d2'', q_status = None, q_taskType = None,
              q_assignedTo = None \<rparr> \<and>
   getAllTasks ex_env ex_db ex_m1 \<lparr>lq_status = None, lq_taskType = None, lq_departmentId = Some ''zzz''\<rparr>
      = Inl (Failure 400 (Some ''INVALID_DEPARTMENT_ID'')) \<and>
   getAllTasks ex_env ex_db ex_m1 \<lparr>lq_status = None, lq_taskType = None, lq_departmentId = Some ''d2''\<rparr>
      = getAllTasks ex_env ex_db ex_m1 \<lparr>lq_status = None, lq_taskType = None, lq_departmentId = None\<rparr>"
proof -
  let ?q = "\<lambda>d. \<lparr>lq_status = None, lq_taskType = None, lq_departmentId = Some d\<rparr>"
  have v: "isValidObjectId ex_env ''d2''" "\<not> isValidObjectId ex_env ''zzz''"
    "role ex_s5 = ''SuperAdmin''" "role ex_m1 \<noteq> ''SuperAdmin''"
    by (simp_all add: ex_defs)
  from C10_departmentId [of "?q ''d2''" ex_env ex_db ex_s5] v
  have "\<exists>tq. buildTaskQuery ex_env ex_s5 (?q ''d2'') = Inr tq \<and> q_department tq = ''d2''"
    by auto
  then have one: "buildTaskQuery ex_env ex_s5 (?q ''d2'')
      = Inr \<lparr> q_company = ''c1'', q_department = ''d2'', q_status = None, q_taskType = None,
              q_assignedTo = None \<rparr>"
    by (simp add: buildTaskQuery_def baseTaskQuery_def truthy_def str_def ex_defs Let_def)
  from C10_departmentId [of "?q ''zzz''" ex_env ex_db ex_m1] v
  have two: "getAllTasks ex_env ex_db ex_m1 (?q ''zzz'') = Inl (Failure 400 (Some ''INVALID_DEPARTMENT_ID''))"
    by simp
  from C10_departmentId [of "?q ''d2''" ex_env ex_db ex_m1] v
  have three: "getAllTasks ex_env ex_db ex_m1 (?q ''d2'')
      = getAllTasks ex_env ex_db ex_m1 \<lparr>lq_status = None, lq_taskType = None, lq_departmentId = None\<rparr>"
    by simp
  from one two three show ?thesis by simp
qed

text \<open>
  The claim as stated fails on a departmentId that is carried with an empty value
  (\<open>GET /tasks?departmentId=\<close>): the empty string is no object id, yet the request does
  not fail; it lists the tasks of m1's own department.
\<close>

theorem C10_empty_departmentId_accepted:
  "\<not> isValidObjectId ex_env [] \<and>
   getAllTasks ex_env ex_db ex_m1 \<lparr>lq_status = None, lq_taskType = None, lq_departmentId = Some []\<rparr>
     = Inr [ex_ta, ex_tp, ex_tb]"
  by (simp add: ex_defs getAllTasks_def buildTaskQuery_def baseTaskQuery_def truthy_def matches_def
      Let_def)

subsection \<open>The status transition table\<close>

lemma tablePairs_spec: "tablePairs = specTransitions"
  by (simp add: tablePairs_def validTransitions_def specTransitions_def)

lemma statusEnum_is: "statusEnum = [''To Do'', ''In Progress'', ''Completed'', ''Pending'']"
  by (simp add: statusEnum_def validTransitions_def)

lemma statusChangeValid_every_pair:
  "from \<in> set statusEnum \<Longrightarrow> to \<in> set statusEnum \<Longrightarrow> statusChangeValid (Some from) (Some to)"
  by (simp add: statusChangeValid_def)

text \<open>
  C4. A status transition is to be accepted if and only if its pair is in the table. The
  table \<open>validTransitions\<close> of the source holds exactly the nine pairs the specification
  lists, but the schema validates \<open>from\<close> and \<open>to\<close> against the keys of the table only,
  so every pair of the four statuses passes. Here To Do to Completed, a pair of statuses
  that neither the table of the source nor the list of the specification allows, is
  accepted.
\<close>

theorem C4_schema_accepts_pair_outside_table:
  "''To Do'' \<in> set statusEnum \<and> ''Completed'' \<in> set statusEnum \<and>
   (''To Do'', ''Completed'') \<notin> set tablePairs \<and>
   (''To Do'', ''Completed'') \<notin> set specTransitions \<and>
   statusChangeValid (Some ''To Do'') (Some ''Completed'')"
  by (simp add: statusChangeValid_def statusEnum_is tablePairs_spec specTransitions_def)

subsection \<open>Task update\<close>

lemma allowedUpdates_updatable: "set (allowedUpdates t) \<subseteq> set updatableKeys"
  by (auto simp: allowedUpdates_def updatableKeys_def)

lemma assignField_keys:
  "assignField ev ''title'' v t = (case v of JString s \<Rightarrow> Some (t\<lparr>title := s\<rparr>) | _ \<Rightarrow> None)"
  "assignField ev ''description'' v t = (case v of JString s \<Rightarrow> Some (t\<lparr>description := s\<rparr>) | _ \<Rightarrow> None)"
  "assignField ev ''location'' v t = (case v of JString s \<Rightarrow> Some (t\<lparr>location := s\<rparr>) | _ \<Rightarrow> None)"
  "assignField ev ''priority'' v t = (case v of JString s \<Rightarrow> Some (t\<lparr>priority := s\<rparr>) | _ \<Rightarrow> None)"
  "assignField ev ''dueDate'' v t = (case parseDate ev v of Some d \<Rightarrow> Some (t\<lparr>dueDate := d\<rparr>) | None \<Rightarrow> None)"
  "assignField ev ''assignedTo'' v t =
     (case v of
        JArray ids \<Rightarrow> if list_all (isValidObjectId ev) ids then Some (t\<lparr>assignedTo := Some ids\<rparr>) else None
      | _ \<Rightarrow> None)"
  "assignField ev ''clientInfo'' v t = (case v of JObject ci \<Rightarrow> Some (t\<lparr>clientInfo := Some ci\<rparr>) | _ \<Rightarrow> None)"
  by (simp_all add: assignField_def)

lemma updatableKeys_cases:
  assumes "key \<in> set updatableKeys"
  shows "key = ''title'' \<or> key = ''description'' \<or> key = ''location''
    \<or> key = ''dueDate'' \<or> key = ''priority'' \<or> key = ''assignedTo'' \<or> key = ''clientInfo''"
  using assms by (simp add: updatableKeys_def)

lemma assignField_frame:
  assumes "key \<in> set updatableKeys" and "assignField ev key v t = Some t'"
  shows "frame t' = frame t"
  using updatableKeys_cases [OF assms(1)] assms(2)
  by (elim disjE)
     (simp_all add: assignField_keys frame_def split: jsvalue.splits option.splits if_splits, auto)

lemma setField_frame:
  "key \<in> set updatableKeys \<Longrightarrow> frame (us_task (setField ev key v st)) = frame (us_task st)"
  by (auto simp: setField_def dest: assignField_frame split: option.splits)

lemma setField_hasChange:
  "hasAssignedToChange (setField ev key v st) = hasAssignedToChange st"
  by (simp add: setField_def split: option.splits)

text \<open>The key \<open>assignedTo\<close>, when it is an allowed update present in the change set, ends the loop with an exception.\<close>

lemma applyUpdates_assignedTo_throws:
  assumes "''assignedTo'' \<in> set allowed" and "map_of ud ''assignedTo'' = Some v"
  shows "\<exists>e. applyUpdates ev ud allowed (''assignedTo'' # keys) st = Inl e"
  using assms by (simp split: jsvalue.splits option.splits)

lemma applyUpdates_keeps:
  assumes "set allowed \<subseteq> set updatableKeys"
    and "applyUpdates ev ud allowed keys st = Inr st'"
  shows "frame (us_task st') = frame (us_task st) \<and>
         hasAssignedToChange st' = hasAssignedToChange st"
  using assms
proof (induction ev ud allowed keys st rule: applyUpdates.induct)
  case (1 ev updateData allowed st)
  then show ?case by simp
next
  case (2 ev updateData allowed key keys st)
  note sub = "2.prems"(1) and run = "2.prems"(2)
  show ?case
  proof (cases "key \<in> set allowed")
    case False
    from run False have t: "applyUpdates ev updateData allowed keys st = Inr st'" by simp
    show ?thesis by (rule "2.IH"(3) [OF False sub t])
  next
    case True
    then have k: "key \<in> set updatableKeys" using sub by blast
    show ?thesis
    proof (cases "map_of updateData key")
      case None
      from run True None have t: "applyUpdates ev updateData allowed keys st = Inr st'" by simp
      show ?thesis by (rule "2.IH"(1) [OF True None sub t])
    next
      case (Some v)
      have na: "key \<noteq> ''assignedTo''"
      proof
        assume a: "key = ''assignedTo''"
        from applyUpdates_assignedTo_throws [of allowed updateData v ev keys st] True Some a
        obtain e where "applyUpdates ev updateData allowed (key # keys) st = Inl e" by blast
        with run show False by simp
      qed
      from run True Some na
      have t: "applyUpdates ev updateData allowed keys (setField ev key v st) = Inr st'" by simp
      from "2.IH"(2) [OF True Some na sub t]
      show ?thesis using setField_frame [OF k, of ev v st] by (simp add: setField_hasChange)
    qed
  qed
qed

lemma saveUpdatedTask_frame:
  "saveUpdatedTask ev st orig = Inr saved \<Longrightarrow> frame saved = frame (us_task st)"
  by (auto simp: saveUpdatedTask_def Let_def frame_def split: if_splits option.splits)

lemma performUpdate_success:
  assumes "performUpdate ev db usr t isCreator payload = Inr (saved, db')"
  shows "\<exists>st changedFields.
              applyUpdates ev (filter (\<lambda>kv. fst kv \<notin> set protectedFields) payload)
                 (allowedUpdates t)
                 (map fst (filter (\<lambda>kv. fst kv \<notin> set protectedFields) payload))
                 \<lparr> us_task = t, hasAssignedToChange = False, castFailed = False \<rparr> = Inr st \<and>
              changedFieldsOf (filter (\<lambda>kv. fst kv \<notin> set protectedFields) payload)
                 (us_task st) t = Inr changedFields \<and>
              saveUpdatedTask ev st t = Inr saved \<and>
              tasks db' = map (\<lambda>x. if t_id x = t_id saved then saved else x) (tasks db) \<and>
              notifications db' = notifications db @
                 updateNotifications db usr saved isCreator (assigneesOf t) changedFields
                   (hasAssignedToChange st) \<and>
              activities db' = activities db \<and> users db' = users db"
  using assms
  by (auto simp: performUpdate_def Let_def split: sum.splits option.splits)

text \<open>No update of an AssignedTask is stored: the request ends in an exception or a failure.\<close>

lemma performUpdate_assigned_fails:
  assumes "taskType t = ''AssignedTask''"
  shows "\<exists>e. performUpdate ev db usr t isCreator payload = Inl e"
proof (cases "performUpdate ev db usr t isCreator payload")
  case (Inl e)
  then show ?thesis by blast
next
  case (Inr r)
  obtain saved db' where "r = (saved, db')" by (cases r)
  with Inr performUpdate_success [of ev db usr t isCreator payload saved db'] assms
  show ?thesis by (auto simp: changedFieldsOf_def Let_def)
qed

lemma performUpdate_frame:
  assumes "performUpdate ev db usr t isCreator payload = Inr (saved, db')"
  shows "frame saved = frame t"
proof -
  from performUpdate_success [OF assms] obtain st where
    a: "applyUpdates ev (filter (\<lambda>kv. fst kv \<notin> set protectedFields) payload)
                 (allowedUpdates t)
                 (map fst (filter (\<lambda>kv. fst kv \<notin> set protectedFields) payload))
                 \<lparr> us_task = t, hasAssignedToChange = False, castFailed = False \<rparr> = Inr st"
    and s: "saveUpdatedTask ev st t = Inr saved" by blast
  from applyUpdates_keeps [OF allowedUpdates_updatable a] saveUpdatedTask_frame [OF s]
  show ?thesis by simp
qed

lemma find_replaced:
  "find (\<lambda>x. t_id x = i) ts = Some t \<Longrightarrow> t_id saved = i \<Longrightarrow>
     find (\<lambda>x. t_id x = i) (map (\<lambda>x. if t_id x = t_id saved then saved else x) ts) = Some saved"
  by (induction ts) (auto split: if_splits)

lemma find_Some_id: "find (\<lambda>x. t_id x = i) ts = Some t \<Longrightarrow> t_id t = i"
  by (induction ts) (auto split: if_splits)

lemma updateTaskById_success:
  assumes "updateTaskById ev db usr taskId payload = Inr r"
  shows "\<exists>t. findTaskById db taskId = Some t \<and>
             performUpdate ev db usr t (createdBy t = u_id usr) payload = Inr r"
  using assms
  by (auto simp: updateTaskById_def Let_def split: if_splits option.splits)

lemma updateTaskById_frame:
  assumes "findTaskById db taskId = Some t"
  shows "\<exists>t'. findTaskById (storeAfter db (updateTaskById ev db usr taskId payload)) taskId = Some t' \<and>
           frame t' = frame t"
proof (cases "updateTaskById ev db usr taskId payload")
  case (Inl e)
  then show ?thesis using assms by (simp add: storeAfter_def)
next
  case (Inr r)
  obtain saved db' where r: "r = (saved, db')" by (cases r)
  from updateTaskById_success [OF Inr] assms r
  have p: "performUpdate ev db usr t (createdBy t = u_id usr) payload = Inr (saved, db')" by auto
  from performUpdate_frame [OF p] have f: "frame saved = frame t" .
  from performUpdate_success [OF p]
  have ts: "tasks db' = map (\<lambda>x. if t_id x = t_id saved then saved else x) (tasks db)" by blast
  have i: "t_id t = taskId" using assms by (auto simp: findTaskById_def dest: find_Some_id)
  with f have sid: "t_id saved = taskId" by (simp add: frame_def)
  from assms have fd: "find (\<lambda>x. t_id x = taskId) (tasks db) = Some t"
    by (simp add: findTaskById_def)
  have "findTaskById db' taskId = Some saved"
    unfolding findTaskById_def ts by (rule find_replaced [OF fd sid])
  then show ?thesis using f Inr r by (simp add: storeAfter_def)
qed


subsection \<open>The guards of the PUT route\<close>

lemma verifyJWT_request_Inr:
  "verifyJWT_request ev db req = Inr r \<Longrightarrow>
     \<exists>p. verifyJWT ev db (access_token req) = Inr p \<and> r = req\<lparr>req_user := Some p\<rparr>"
  by (auto simp: verifyJWT_request_def split: sum.splits)

lemma authorizeRoles_Inr:
  "authorizeRoles allowedRoles req = Inr r \<Longrightarrow>
     r = req \<and> (\<exists>p. req_user req = Some p \<and> role (p_user p) \<in> set allowedRoles)"
  by (cases "req_user req") (simp_all add: authorizeRoles_def split: if_splits)

lemma verifyCompanyAccess_Inr:
  "verifyCompanyAccess req = Inr r \<Longrightarrow>
     \<exists>p. req_user req = Some p \<and>
         (r = req \<or>
          r = req\<lparr>req_body := setProperty ''company'' (JString (u_company (p_user p))) (req_body req)\<rparr>)"
  by (cases "req_user req"; cases "resourceId req ''companyId'' ''company''")
     (simp_all add: verifyCompanyAccess_def split: if_splits)

lemma verifyDepartmentAccess_Inr:
  "verifyDepartmentAccess ev db req = Inr r \<Longrightarrow> r = req"
  by (simp add: verifyDepartmentAccess_def Let_def split: option.splits sum.splits if_splits)

lemma routeGuards_Inr:
  assumes "routeGuards ev db req = Inr r"
  shows "\<exists>p. verifyJWT ev db (access_token req) = Inr p \<and> req_user r = Some p \<and>
             (role (p_user p) = ''SuperAdmin'' \<or> role (p_user p) = ''Manager'') \<and>
             req_params r = req_params req \<and>
             (req_body r = req_body req \<or>
              req_body r = setProperty ''company'' (JString (u_company (p_user p))) (req_body req))"
proof -
  from assms obtain r1 r2 r3 where
    a: "verifyJWT_request ev db req = Inr r1" and
    b: "authorizeRoles [''SuperAdmin'', ''Manager''] r1 = Inr r2" and
    c: "verifyCompanyAccess r2 = Inr r3" and
    d: "verifyDepartmentAccess ev db r3 = Inr r"
    by (auto simp: routeGuards_def split: sum.splits)
  from verifyJWT_request_Inr [OF a] obtain p where
    p: "verifyJWT ev db (access_token req) = Inr p" and r1: "r1 = req\<lparr>req_user := Some p\<rparr>"
    by blast
  from authorizeRoles_Inr [OF b] r1 have r2: "r2 = r1"
    and ro: "role (p_user p) = ''SuperAdmin'' \<or> role (p_user p) = ''Manager''" by auto
  from verifyCompanyAccess_Inr [OF c] r2 r1
  have r3: "r3 = r1 \<or>
      r3 = r1\<lparr>req_body := setProperty ''company'' (JString (u_company (p_user p))) (req_body r1)\<rparr>"
    by auto
  from verifyDepartmentAccess_Inr [OF d] have r: "r = r3" .
  from r r3 r1 have "req_user r = Some p" "req_params r = req_params req"
    "req_body r = req_body req \<or>
     req_body r = setProperty ''company'' (JString (u_company (p_user p))) (req_body req)"
    by auto
  with p ro show ?thesis by blast
qed

lemma putTask_failed_guard:
  "routeGuards ev db req = Inl e \<Longrightarrow> putTask ev db req = Inl e"
  by (simp add: putTask_def)

lemma putTask_passed_guards:
  assumes "routeGuards ev db req = Inr r" and "req_user r = Some p"
  shows "putTask ev db req = updateTaskById ev db (p_user p) (taskIdOf req) (req_body r)"
proof -
  from routeGuards_Inr [OF assms(1)] have "req_params r = req_params req" by blast
  then have "taskIdOf r = taskIdOf req" by (simp add: taskIdOf_def)
  with assms show ?thesis by (simp add: putTask_def)
qed

lemma putTask_frame:
  assumes "findTaskById db (taskIdOf req) = Some t"
  shows "\<exists>t'. findTaskById (storeAfter db (putTask ev db req)) (taskIdOf req) = Some t' \<and>
           frame t' = frame t"
proof (cases "routeGuards ev db req")
  case (Inl e)
  then show ?thesis using assms by (simp add: putTask_failed_guard storeAfter_def)
next
  case (Inr r)
  from routeGuards_Inr [OF Inr] obtain p where "req_user r = Some p" by blast
  from putTask_passed_guards [OF Inr this] updateTaskById_frame [OF assms]
  show ?thesis by simp
qed

text \<open>
  C7. For every task-update request, whatever the request body holds, the stored task
  has after the operation the taskType, createdBy, department and status it had before:
  the protected fields are deleted from the change set, and no allowed update assigns
  them. This holds of the controller updateTaskById and of the whole route PUT
  /tasks/:taskId, for a request that succeeds and for one that fails.
\<close>

theorem C7_protected_fields:
  "(\<forall>t. findTaskById db taskId = Some t \<longrightarrow>
      (\<exists>t'. findTaskById (storeAfter db (updateTaskById ev db usr taskId payload)) taskId = Some t' \<and>
         taskType t' = taskType t \<and> createdBy t' = createdBy t \<and>
         t_department t' = t_department t \<and> status t' = status t)) \<and>
   (\<forall>t. findTaskById db (taskIdOf req) = Some t \<longrightarrow>
      (\<exists>t'. findTaskById (storeAfter db (putTask ev db req)) (taskIdOf req) = Some t' \<and>
         taskType t' = taskType t \<and> createdBy t' = createdBy t \<and>
         t_department t' = t_department t \<and> status t' = status t))"
proof (intro conjI allI impI)
  fix t assume "findTaskById db taskId = Some t"
  from updateTaskById_frame [OF this, of ev usr payload]
  show "\<exists>t'. findTaskById (storeAfter db (updateTaskById ev db usr taskId payload)) taskId = Some t' \<and>
         taskType t' = taskType t \<and> createdBy t' = createdBy t \<and>
         t_department t' = t_department t \<and> status t' = status t"
    by (auto simp: frame_def)
next
  fix t assume "findTaskById db (taskIdOf req) = Some t"
  from putTask_frame [OF this, of ev]
  show "\<exists>t'. findTaskById (storeAfter db (putTask ev db req)) (taskIdOf req) = Some t' \<and>
         taskType t' = taskType t \<and> createdBy t' = createdBy t \<and>
         t_department t' = t_department t \<and> status t' = status t"
    by (auto simp: frame_def)
qed

text \<open>
  The theorem on the ProjectTask tp: the SuperAdmin s5 sends a new title together with
  a status, a task type, a creator and a department; the title is stored, the four
  protected fields stay.
\<close>

theorem C7_protected_fields_witness:
  "(\<exists>t'. findTaskById (storeAfter ex_db (putTask ex_env ex_db (ex_put ''s5'' ''tp'' ex_payload))) ''tp''
          = Some t' \<and>
        title t' = ''Renamed'' \<and> taskType t' = ''ProjectTask'' \<and> createdBy t' = ''m1'' \<and>
        t_department t' = ''d1'' \<and> status t' = ''To Do'') \<and>
   (\<exists>t'. findTaskById (storeAfter ex_db (updateTaskById ex_env ex_db ex_s5 ''tp'' ex_payload)) ''tp''
          = Some t' \<and>
        title t' = ''Renamed'' \<and> taskType t' = ''ProjectTask'' \<and> createdBy t' = ''m1'' \<and>
        t_department t' = ''d1'' \<and> status t' = ''To Do'')"
proof -
  have i: "taskIdOf (ex_put ''s5'' ''tp'' ex_payload) = ''tp''"
    by (simp add: taskIdOf_def ex_put_def str_def)
  have f: "findTaskById ex_db ''tp'' = Some ex_tp" by (simp add: findTaskById_def ex_defs)
  have e1: "findTaskById (storeAfter ex_db (updateTaskById ex_env ex_db ex_s5 ''tp'' ex_payload)) ''tp''
             = Some (ex_tp\<lparr>title := ''Renamed''\<rparr>)"
    by (simp add: update_defs ex_defs ex_payload_def)
  have e2: "findTaskById (storeAfter ex_db (putTask ex_env ex_db (ex_put ''s5'' ''tp'' ex_payload))) ''tp''
             = Some (ex_tp\<lparr>title := ''Renamed''\<rparr>)"
    by (simp add: route_defs update_defs ex_defs ex_payload_def ex_put_def)
  from C7_protected_fields [of ex_db "''tp''" ex_env ex_s5 ex_payload "ex_put ''s5'' ''tp'' ex_payload"]
    f i e1 e2
  show ?thesis by (simp add: ex_tp_def)
qed


lemma holdsValue_keys:
  "holdsValue ev t ''title'' v = (v = JString (title t))"
  "holdsValue ev t ''description'' v = (v = JString (description t))"
  "holdsValue ev t ''location'' v = (v = JString (location t))"
  "holdsValue ev t ''priority'' v = (v = JString (priority t))"
  "holdsValue ev t ''dueDate'' v = (parseDate ev v = Some (dueDate t))"
  "holdsValue ev t ''assignedTo'' v = (case assignedTo t of None \<Rightarrow> False | Some ids \<Rightarrow> v = JArray ids)"
  "holdsValue ev t ''clientInfo'' v = (case clientInfo t of None \<Rightarrow> False | Some ci \<Rightarrow> v = JObject ci)"
  "holdsValue ev t ''company'' v"
  by (simp_all add: holdsValue_def)

lemma assignField_identical:
  assumes "key \<in> set updatableKeys" and "holdsValue ev t key v"
  shows "assignField ev key v t = Some t \<or> assignField ev key v t = None"
  using updatableKeys_cases [OF assms(1)] assms(2)
  by (elim disjE) (simp_all add: assignField_keys holdsValue_keys split: option.splits)

lemma setField_identical:
  assumes "key \<in> set updatableKeys" and "holdsValue ev (us_task st) key v"
  shows "us_task (setField ev key v st) = us_task st"
  using assignField_identical [OF assms] by (auto simp: setField_def)

lemma identical_holds:
  assumes "identicalPayload ev t payload"
    and "map_of (filter (\<lambda>kv. fst kv \<notin> set protectedFields) payload) key = Some v"
  shows "holdsValue ev t key v"
proof -
  from assms(2) have "(key, v) \<in> set payload" by (auto dest: map_of_SomeD)
  with assms(1) show ?thesis by (auto simp: identicalPayload_def list_all_iff)
qed

lemma applyUpdates_identical:
  assumes "set allowed \<subseteq> set updatableKeys"
    and "\<And>key v. map_of ud key = Some v \<Longrightarrow> holdsValue ev t key v"
    and "us_task st = t"
    and "applyUpdates ev ud allowed keys st = Inr st'"
  shows "us_task st' = t"
  using assms
proof (induction ev ud allowed keys st rule: applyUpdates.induct)
  case (1 ev updateData allowed st)
  from "1.prems"(4) have "st' = st" by simp
  with "1.prems"(3) show ?case by simp
next
  case (2 ev updateData allowed key keys st)
  note sub = "2.prems"(1) and hold = "2.prems"(2) and st = "2.prems"(3) and run = "2.prems"(4)
  show ?case
  proof (cases "key \<in> set allowed")
    case False
    from run False have t3: "applyUpdates ev updateData allowed keys st = Inr st'" by simp
    show ?thesis by (rule "2.IH"(3) [OF False sub hold st t3])
  next
    case True
    then have k: "key \<in> set updatableKeys" using sub by blast
    show ?thesis
    proof (cases "map_of updateData key")
      case None
      from run True None have t3: "applyUpdates ev updateData allowed keys st = Inr st'" by simp
      show ?thesis by (rule "2.IH"(1) [OF True None sub hold st t3])
    next
      case (Some v)
      have hv: "holdsValue ev (us_task st) key v" using hold [OF Some] st by simp
      have na: "key \<noteq> ''assignedTo''"
      proof
        assume a: "key = ''assignedTo''"
        from applyUpdates_assignedTo_throws [of allowed updateData v ev keys st] True Some a
        obtain e where "applyUpdates ev updateData allowed (key # keys) st = Inl e" by blast
        with run show False by simp
      qed
      have t1: "us_task (setField ev key v st) = t" using setField_identical [OF k hv] st by simp
      from run True Some na
      have t3: "applyUpdates ev updateData allowed keys (setField ev key v st) = Inr st'" by simp
      show ?thesis by (rule "2.IH"(2) [OF True Some na sub hold t1 t3])
    qed
  qed
qed

lemma fieldChanged_same: "\<not> fieldChanged key t t"
  by (simp add: fieldChanged_def)

lemma changedFieldsOf_same: "changedFieldsOf ud t t = Inr cf \<Longrightarrow> cf = []"
  by (auto simp: changedFieldsOf_def fieldChanged_same split: if_splits)

lemma updateNotifications_none:
  "updateNotifications db usr saved isCreator orig [] False = []"
  by (simp add: updateNotifications_def Let_def)

lemma updateTaskById_silent:
  assumes "findTaskById db taskId = Some t" and "identicalPayload ev t payload"
  shows "notifications (storeAfter db (updateTaskById ev db usr taskId payload)) = notifications db \<and>
         activities (storeAfter db (updateTaskById ev db usr taskId payload)) = activities db"
proof (cases "updateTaskById ev db usr taskId payload")
  case (Inl e)
  then show ?thesis by (simp add: storeAfter_def)
next
  case (Inr r)
  obtain saved db' where r: "r = (saved, db')" by (cases r)
  let ?ud = "filter (\<lambda>kv. fst kv \<notin> set protectedFields) payload"
  let ?init = "\<lparr> us_task = t, hasAssignedToChange = False, castFailed = False \<rparr>"
  from updateTaskById_success [OF Inr] assms(1) r
  have p: "performUpdate ev db usr t (createdBy t = u_id usr) payload = Inr (saved, db')" by auto
  from performUpdate_success [OF p] obtain st cf where
    ap: "applyUpdates ev ?ud (allowedUpdates t) (map fst ?ud) ?init = Inr st"
    and c: "changedFieldsOf ?ud (us_task st) t = Inr cf"
    and n: "notifications db' = notifications db @
                 updateNotifications db usr saved (createdBy t = u_id usr) (assigneesOf t) cf
                   (hasAssignedToChange st)"
    and a: "activities db' = activities db"
    by blast
  have init: "us_task ?init = t" by simp
  have same: "us_task st = t"
    by (rule applyUpdates_identical [OF allowedUpdates_updatable identical_holds [OF assms(2)] init ap])
  have nochange: "\<not> hasAssignedToChange st"
    using applyUpdates_keeps [OF allowedUpdates_updatable ap] by simp
  from c same have "cf = []" by (simp add: changedFieldsOf_same)
  with n nochange have "notifications db' = notifications db"
    by (simp add: updateNotifications_none)
  then show ?thesis using a Inr r by (simp add: storeAfter_def)
qed

lemma identicalPayload_company:
  assumes "identicalPayload ev t payload"
  shows "identicalPayload ev t (setProperty ''company'' v payload)"
proof -
  have h: "holdsValue ev t ''company'' v" by (rule holdsValue_keys(8))
  from assms have all: "\<forall>kv \<in> set payload. holdsValue ev t (fst kv) (snd kv)"
    by (simp add: identicalPayload_def list_all_iff)
  show ?thesis
  proof (cases "''company'' \<in> set (map fst payload)")
    case True
    then have "setProperty ''company'' v payload
                 = map (\<lambda>kv. if fst kv = ''company'' then (''company'', v) else kv) payload"
      by (simp only: setProperty_def if_True)
    then show ?thesis using all h by (auto simp: identicalPayload_def list_all_iff)
  next
    case False
    then have "setProperty ''company'' v payload = payload @ [(''company'', v)]"
      by (simp only: setProperty_def if_False)
    then show ?thesis using all h by (auto simp: identicalPayload_def list_all_iff)
  qed
qed

lemma putTask_silent:
  assumes "findTaskById db (taskIdOf req) = Some t" and "identicalPayload ev t (req_body req)"
  shows "notifications (storeAfter db (putTask ev db req)) = notifications db \<and>
         activities (storeAfter db (putTask ev db req)) = activities db"
proof (cases "routeGuards ev db req")
  case (Inl e)
  then show ?thesis by (simp add: putTask_failed_guard storeAfter_def)
next
  case (Inr r)
  from routeGuards_Inr [OF Inr] obtain p where u: "req_user r = Some p"
    and b: "req_body r = req_body req \<or>
            req_body r = setProperty ''company'' (JString (u_company (p_user p))) (req_body req)"
    by blast
  from b assms(2) have "identicalPayload ev t (req_body r)"
    by (auto intro: identicalPayload_company)
  from updateTaskById_silent [OF assms(1) this] putTask_passed_guards [OF Inr u]
  show ?thesis by simp
qed

text \<open>
  C6. For every task and every update request whose payload is identical to the current
  state of the task, the operation leaves the notification collection and the activity
  collection as they were: it produces no notification record and no activity record.
  This holds of the controller updateTaskById and of the whole route PUT /tasks/:taskId.
\<close>

theorem C6_identical_update_silent:
  "(\<forall>t. findTaskById db taskId = Some t \<and> identicalPayload ev t payload \<longrightarrow>
      notifications (storeAfter db (updateTaskById ev db usr taskId payload)) = notifications db \<and>
      activities (storeAfter db (updateTaskById ev db usr taskId payload)) = activities db) \<and>
   (\<forall>t. findTaskById db (taskIdOf req) = Some t \<and> identicalPayload ev t (req_body req) \<longrightarrow>
      notifications (storeAfter db (putTask ev db req)) = notifications db \<and>
      activities (storeAfter db (putTask ev db req)) = activities db)"
  using updateTaskById_silent [of db taskId _ ev payload usr] putTask_silent [of db req _ ev]
  by blast

text \<open>
  The theorem on the ProjectTask tp: m1 sends the title, priority, client and status
  that tp has; the update succeeds, the task is unchanged and nothing is recorded.
\<close>

theorem C6_identical_update_silent_witness:
  "(case putTask ex_env ex_db (ex_put ''m1'' ''tp'' ex_same) of
      Inl e \<Rightarrow> False | Inr r \<Rightarrow> fst r = ex_tp) \<and>
   notifications (storeAfter ex_db (putTask ex_env ex_db (ex_put ''m1'' ''tp'' ex_same))) = [] \<and>
   activities (storeAfter ex_db (putTask ex_env ex_db (ex_put ''m1'' ''tp'' ex_same))) = [] \<and>
   notifications (storeAfter ex_db (updateTaskById ex_env ex_db ex_m1 ''tp'' ex_same)) = []"
proof -
  have i: "taskIdOf (ex_put ''m1'' ''tp'' ex_same) = ''tp''"
    "req_body (ex_put ''m1'' ''tp'' ex_same) = ex_same"
    by (simp_all add: taskIdOf_def ex_put_def str_def)
  have f: "findTaskById ex_db ''tp'' = Some ex_tp" by (simp add: findTaskById_def ex_defs)
  have s: "identicalPayload ex_env ex_tp ex_same"
    by (simp add: identicalPayload_def holdsValue_def ex_same_def ex_tp_def)
  have ok: "(case putTask ex_env ex_db (ex_put ''m1'' ''tp'' ex_same) of
      Inl e \<Rightarrow> False | Inr r \<Rightarrow> fst r = ex_tp)"
    by (simp add: route_defs update_defs ex_defs ex_same_def ex_put_def)
  have z: "notifications ex_db = []" "activities ex_db = []" by (simp_all add: ex_db_def)
  from C6_identical_update_silent [of ex_db "''tp''" ex_env ex_same ex_m1 "ex_put ''m1'' ''tp'' ex_same"]
    f s i ok z
  show ?thesis by simp
qed


text \<open>The controller called on its own refuses the role User, which the route never lets reach it.\<close>

lemma updateTaskById_user_denied:
  "isValidObjectId ev taskId \<Longrightarrow> role usr = ''User'' \<Longrightarrow>
     updateTaskById ev db usr taskId payload = Inl (Failure 403 (Some ''PERMISSION_DENIED''))"
  by (simp add: updateTaskById_def)

lemma updateTaskById_authorization:
  assumes "isValidObjectId ev taskId" and "findTaskById db taskId = Some t"
    and "role usr = ''SuperAdmin'' \<or> role usr = ''Manager''"
  shows "updateTaskById ev db usr taskId payload =
           (if createdBy t = u_id usr \<or> t_department t = u_department usr
            then performUpdate ev db usr t (createdBy t = u_id usr) payload
            else Inl (Failure 403 (Some ''PERMISSION_DENIED'')))"
proof -
  from assms(3) have nu: "role usr \<noteq> ''User''" by auto
  from assms(3) have mp: "role usr \<in> set [''SuperAdmin'', ''Manager'']" by auto
  show ?thesis using assms(1,2) nu mp
    by (simp add: updateTaskById_def Let_def del: set_simps)
qed

text \<open>
  C2, as the code has it, for a request PUT /tasks/:taskId. A principal whose role is
  neither SuperAdmin nor Manager is refused by the role guard of the route with
  INSUFFICIENT_PERMISSIONS. A request that a guard of the route refuses (the credential,
  the role, the company or the department guard) is answered with the failure of that
  guard. A request that passes the guards comes from a SuperAdmin or a Manager; on a
  well-formed id of an existing task it passes the authorization check of the controller
  exactly when the principal is the creator of the task or their department is the
  department of the task, and then the update runs on the body the guards passed on;
  otherwise the answer is PERMISSION_DENIED. A request that fails leaves the store as it
  was.
\<close>

theorem C2_update_permission:
  "(\<forall>p. verifyJWT ev db (access_token req) = Inr p \<and> role (p_user p) \<noteq> ''SuperAdmin'' \<and>
         role (p_user p) \<noteq> ''Manager'' \<longrightarrow>
        putTask ev db req = Inl (Failure 403 (Some ''INSUFFICIENT_PERMISSIONS''))) \<and>
   (\<forall>e. routeGuards ev db req = Inl e \<longrightarrow> putTask ev db req = Inl e) \<and>
   (\<forall>r p t. routeGuards ev db req = Inr r \<and> req_user r = Some p \<and>
        isValidObjectId ev (taskIdOf req) \<and> findTaskById db (taskIdOf req) = Some t \<longrightarrow>
        (role (p_user p) = ''SuperAdmin'' \<or> role (p_user p) = ''Manager'') \<and>
        (if createdBy t = u_id (p_user p) \<or> t_department t = u_department (p_user p)
         then putTask ev db req
                = performUpdate ev db (p_user p) t (createdBy t = u_id (p_user p)) (req_body r)
         else putTask ev db req = Inl (Failure 403 (Some ''PERMISSION_DENIED'')))) \<and>
   (\<forall>e. putTask ev db req = Inl e \<longrightarrow> storeAfter db (putTask ev db req) = db)"
proof (intro conjI allI impI)
  fix p
  assume "verifyJWT ev db (access_token req) = Inr p \<and> role (p_user p) \<noteq> ''SuperAdmin'' \<and>
         role (p_user p) \<noteq> ''Manager''"
  then show "putTask ev db req = Inl (Failure 403 (Some ''INSUFFICIENT_PERMISSIONS''))"
    by (simp add: putTask_def routeGuards_def verifyJWT_request_def authorizeRoles_def)
next
  fix e assume "routeGuards ev db req = Inl e"
  then show "putTask ev db req = Inl e" by (rule putTask_failed_guard)
next
  fix r p t
  assume a: "routeGuards ev db req = Inr r \<and> req_user r = Some p \<and>
        isValidObjectId ev (taskIdOf req) \<and> findTaskById db (taskIdOf req) = Some t"
  from a routeGuards_Inr [of ev db req r]
  show "role (p_user p) = ''SuperAdmin'' \<or> role (p_user p) = ''Manager''" by auto
  then have "updateTaskById ev db (p_user p) (taskIdOf req) (req_body r) =
           (if createdBy t = u_id (p_user p) \<or> t_department t = u_department (p_user p)
            then performUpdate ev db (p_user p) t (createdBy t = u_id (p_user p)) (req_body r)
            else Inl (Failure 403 (Some ''PERMISSION_DENIED'')))"
    using a updateTaskById_authorization [of ev "taskIdOf req" db t "p_user p" "req_body r"] by blast
  moreover have "putTask ev db req = updateTaskById ev db (p_user p) (taskIdOf req) (req_body r)"
    using a putTask_passed_guards [of ev db req r p] by blast
  ultimately
  show "if createdBy t = u_id (p_user p) \<or> t_department t = u_department (p_user p)
         then putTask ev db req
                = performUpdate ev db (p_user p) t (createdBy t = u_id (p_user p)) (req_body r)
         else putTask ev db req = Inl (Failure 403 (Some ''PERMISSION_DENIED''))"
    by (simp split: if_splits)
next
  fix e assume "putTask ev db req = Inl e"
  then show "storeAfter db (putTask ev db req) = db" by (simp add: storeAfter_def)
qed

text \<open>
  The claim as stated fails twice. The User u2 who sends PUT /tasks/tq is denied with
  INSUFFICIENT_PERMISSIONS, not PERMISSION_DENIED. And the Manager m7, who belongs to
  department d2, updates the ProjectTask tq of department d1, because he created it: the
  department check applies only to a Manager or SuperAdmin who is not the creator.
\<close>

theorem C2_route_guard_and_creator:
  "role ex_u2 = ''User'' \<and>
   putTask ex_env ex_db2 (ex_put ''u2'' ''tq'' ex_rename)
     = Inl (Failure 403 (Some ''INSUFFICIENT_PERMISSIONS'')) \<and>
   role ex_m7 = ''Manager'' \<and> u_department ex_m7 = ''d2'' \<and>
   findTaskById ex_db2 ''tq'' = Some ex_tq \<and> t_department ex_tq = ''d1'' \<and>
   createdBy ex_tq = u_id ex_m7 \<and>
   (case putTask ex_env ex_db2 (ex_put ''m7'' ''tq'' ex_rename) of
      Inl e \<Rightarrow> False
    | Inr r \<Rightarrow> fst r = ex_tq\<lparr>title := ''Renamed''\<rparr>)"
  by (simp add: route_defs update_defs ex_defs ex_put_def ex_rename_def ex_tq_def ex_db2_def)

text \<open>
  The theorem at the example store: the User u2 is stopped by the role guard; the
  Manager m1 who names department d2 in the body is stopped by the department guard;
  the Manager m7 of department d2 is denied on tp (department d1, created by m1), the
  store staying as it was, and is let through on tq, which he created; the SuperAdmin s5
  of d1 is let through on tp.
\<close>

theorem C2_update_permission_witness:
  "putTask ex_env ex_db2 (ex_put ''u2'' ''tq'' ex_rename)
     = Inl (Failure 403 (Some ''INSUFFICIENT_PERMISSIONS'')) \<and>
   putTask ex_env ex_db2 (ex_put ''m1'' ''tp'' ex_payload)
     = Inl (Failure 403 (Some ''DEPARTMENT_ACCESS_DENIED'')) \<and>
   putTask ex_env ex_db2 (ex_put ''m7'' ''tp'' ex_rename)
     = Inl (Failure 403 (Some ''PERMISSION_DENIED'')) \<and>
   storeAfter ex_db2 (putTask ex_env ex_db2 (ex_put ''m7'' ''tp'' ex_rename)) = ex_db2 \<and>
   putTask ex_env ex_db2 (ex_put ''m7'' ''tq'' ex_rename)
     = performUpdate ex_env ex_db2 ex_m7 ex_tq True
         (ex_rename @ [(''company'', JString ''c1'')]) \<and>
   putTask ex_env ex_db2 (ex_put ''s5'' ''tp'' ex_rename)
     = performUpdate ex_env ex_db2 ex_s5 ex_tp False
         (ex_rename @ [(''company'', JString ''c1'')])"
proof -
  let ?P = "\<lambda>u d. \<lparr> p_user = u, p_company = Some ex_company, p_department = Some d \<rparr>"
  let ?R = "\<lambda>tok i u d. \<lparr> access_token = Some tok, req_params = [(''taskId'', i)],
               req_body = ex_rename @ [(''company'', JString ''c1'')], req_query = [],
               req_user = Some (?P u d) \<rparr>"
  have j: "verifyJWT ex_env ex_db2 (access_token (ex_put ''u2'' ''tq'' ex_rename)) = Inr (?P ex_u2 ex_d1)"
    by (simp add: verifyJWT_def findUserById_def populate_def ex_defs ex_put_def ex_db2_def)
  have g1: "routeGuards ex_env ex_db2 (ex_put ''m1'' ''tp'' ex_payload)
              = Inl (Failure 403 (Some ''DEPARTMENT_ACCESS_DENIED''))"
    by (simp add: route_defs ex_defs ex_put_def ex_payload_def ex_db2_def)
  have g2: "routeGuards ex_env ex_db2 (ex_put ''m7'' ''tp'' ex_rename) = Inr (?R ''m7'' ''tp'' ex_m7 ex_d2)"
    "routeGuards ex_env ex_db2 (ex_put ''m7'' ''tq'' ex_rename) = Inr (?R ''m7'' ''tq'' ex_m7 ex_d2)"
    "routeGuards ex_env ex_db2 (ex_put ''s5'' ''tp'' ex_rename) = Inr (?R ''s5'' ''tp'' ex_s5 ex_d1)"
    by (simp_all add: route_defs ex_defs ex_put_def ex_rename_def ex_db2_def)
  have i: "taskIdOf (ex_put ''m7'' ''tp'' ex_rename) = ''tp''"
    "taskIdOf (ex_put ''m7'' ''tq'' ex_rename) = ''tq''"
    "taskIdOf (ex_put ''s5'' ''tp'' ex_rename) = ''tp''"
    by (simp_all add: taskIdOf_def ex_put_def str_def)
  have v: "isValidObjectId ex_env ''tp''" "isValidObjectId ex_env ''tq''" by (simp_all add: ex_env_def)
  have f: "findTaskById ex_db2 ''tp'' = Some ex_tp" "findTaskById ex_db2 ''tq'' = Some ex_tq"
    by (simp_all add: findTaskById_def ex_defs ex_db2_def ex_tq_def)
  have r: "role ex_u2 \<noteq> ''SuperAdmin''" "role ex_u2 \<noteq> ''Manager''" by (simp_all add: ex_defs)
  have c: "createdBy ex_tp \<noteq> u_id ex_m7" "t_department ex_tp \<noteq> u_department ex_m7"
    "createdBy ex_tq = u_id ex_m7" "createdBy ex_tp \<noteq> u_id ex_s5"
    "t_department ex_tp = u_department ex_s5"
    by (simp_all add: ex_defs ex_tq_def)
  from C2_update_permission [of ex_env ex_db2 "ex_put ''u2'' ''tq'' ex_rename"] j r
  have one: "putTask ex_env ex_db2 (ex_put ''u2'' ''tq'' ex_rename)
     = Inl (Failure 403 (Some ''INSUFFICIENT_PERMISSIONS''))" by simp
  from C2_update_permission [of ex_env ex_db2 "ex_put ''m1'' ''tp'' ex_payload"] g1
  have two: "putTask ex_env ex_db2 (ex_put ''m1'' ''tp'' ex_payload)
     = Inl (Failure 403 (Some ''DEPARTMENT_ACCESS_DENIED''))" by simp
  from C2_update_permission [of ex_env ex_db2 "ex_put ''m7'' ''tp'' ex_rename"] g2(1) i(1) v f c
  have three: "putTask ex_env ex_db2 (ex_put ''m7'' ''tp'' ex_rename)
     = Inl (Failure 403 (Some ''PERMISSION_DENIED''))"
    and threeb: "storeAfter ex_db2 (putTask ex_env ex_db2 (ex_put ''m7'' ''tp'' ex_rename)) = ex_db2"
    by simp_all
  from C2_update_permission [of ex_env ex_db2 "ex_put ''m7'' ''tq'' ex_rename"] g2(2) i(2) v f c
  have four: "putTask ex_env ex_db2 (ex_put ''m7'' ''tq'' ex_rename)
     = performUpdate ex_env ex_db2 ex_m7 ex_tq True (ex_rename @ [(''company'', JString ''c1'')])"
    by simp
  from C2_update_permission [of ex_env ex_db2 "ex_put ''s5'' ''tp'' ex_rename"] g2(3) i(3) v f c
  have five: "putTask ex_env ex_db2 (ex_put ''s5'' ''tp'' ex_rename)
     = performUpdate ex_env ex_db2 ex_s5 ex_tp False (ex_rename @ [(''company'', JString ''c1'')])"
    by simp
  from one two three threeb four five show ?thesis by simp
qed

end
